theory Spec2Isabelle
  imports Complex_Main "HOL-Library.Sublist"
begin

section \<open>Strings\<close>

text \<open>
  Python strings are modelled as \<open>string\<close>; the text handled here (identifiers, host
  names, file names, dates) is taken to be ASCII, so a character is one \<open>char\<close> and
  the character classes of the regular expressions are the ASCII ones.
\<close>

definition is_digit :: "char \<Rightarrow> bool" where
  "is_digit c = (c \<in> set ''0123456789'')"

definition is_lower :: "char \<Rightarrow> bool" where
  "is_lower c = (c \<in> set ''abcdefghijklmnopqrstuvwxyz'')"

definition is_upper :: "char \<Rightarrow> bool" where
  "is_upper c = (c \<in> set ''ABCDEFGHIJKLMNOPQRSTUVWXYZ'')"

definition is_space :: "char \<Rightarrow> bool" where
  \<comment> \<open>\<open>\s\<close>, \<open>str.split()\<close> and \<open>str.strip()\<close>: the ASCII characters Python counts as
     whitespace, that is space, \<open>\t \n \v \f \r\<close> and the separators \<open>0x1C\<close> to \<open>0x1F\<close>\<close>
  "is_space c = (c \<in> set [CHR '' '', CHR 0x09, CHR 0x0A, CHR 0x0B, CHR 0x0C, CHR 0x0D,
                             CHR 0x1C, CHR 0x1D, CHR 0x1E, CHR 0x1F])"

definition lower_char :: "char \<Rightarrow> char" where
  "lower_char c =
     (case map_of (zip ''ABCDEFGHIJKLMNOPQRSTUVWXYZ'' ''abcdefghijklmnopqrstuvwxyz'') c of
        Some l \<Rightarrow> l
      | None \<Rightarrow> c)"

definition lower :: "string \<Rightarrow> string" where
  \<comment> \<open>\<open>str.lower()\<close>\<close>
  "lower s = map lower_char s"

definition strip_chars :: "char list \<Rightarrow> string \<Rightarrow> string" where
  \<comment> \<open>\<open>str.strip(chars)\<close>\<close>
  "strip_chars cs s = rev (dropWhile (\<lambda>c. c \<in> set cs) (rev (dropWhile (\<lambda>c. c \<in> set cs) s)))"

section \<open>URL Resolver\<close>

text \<open>
  \<open>_BANDCAMP_SUBDOMAIN_PATTERN = [a-z0-9][a-z0-9-]{2,}[a-z0-9]\<close>, compiled with
  \<open>re.IGNORECASE\<close> and used with \<open>fullmatch\<close>: one letter or digit, at least two
  letters, digits or hyphens, one letter or digit, and nothing else.
\<close>

definition alnum_ic :: "char \<Rightarrow> bool" where
  \<comment> \<open>\<open>[a-z0-9]\<close> under \<open>re.IGNORECASE\<close>\<close>
  "alnum_ic c = (is_lower c \<or> is_upper c \<or> is_digit c)"

definition alnum_hyphen_ic :: "char \<Rightarrow> bool" where
  \<comment> \<open>\<open>[a-z0-9-]\<close> under \<open>re.IGNORECASE\<close>\<close>
  "alnum_hyphen_ic c = (alnum_ic c \<or> c = CHR ''-'')"

fun subdomain_fullmatch :: "string \<Rightarrow> bool" where
  "subdomain_fullmatch [] = False"
| "subdomain_fullmatch (c # cs) =
     (alnum_ic c \<and> 3 \<le> length cs \<and> list_all alnum_hyphen_ic (butlast cs) \<and> alnum_ic (last cs))"

text \<open>
  \<open>BANDCAMP_URL_REGEX = (?:www\.)?\<close> subdomain pattern \<open>\.bandcamp\.com\<close>, case-insensitive,
  used with \<open>fullmatch\<close> on the host. The subdomain pattern has no dot, so the subdomain
  is everything before the final \<open>.bandcamp.com\<close>.
\<close>

definition host_tail_fullmatch :: "string \<Rightarrow> bool" where
  "host_tail_fullmatch t =
     (13 \<le> length t
      \<and> lower (drop (length t - 13) t) = ''.bandcamp.com''
      \<and> subdomain_fullmatch (take (length t - 13) t))"

definition url_fullmatch :: "string \<Rightarrow> bool" where
  "url_fullmatch h =
     ((lower (take 4 h) = ''www.'' \<and> host_tail_fullmatch (drop 4 h)) \<or> host_tail_fullmatch h)"

text \<open>The six fields of the result of \<open>urllib.parse.urlparse\<close>.\<close>

record parsed_url =
  scheme :: string
  netloc :: string
  path :: string
  params :: string
  query :: string
  fragment :: string

text \<open>
  The page of an artist root as the resolver sees it: the \<open>href\<close> of every anchor in
  the \<open>ol#music-grid\<close> element, or \<open>None\<close> when the page has no such element.
\<close>

record artist_page =
  music_grid :: "string list option"

text \<open>
  The collaborators: the Page Fetcher (\<open>Inl\<close> carries the status code of the
  \<open>HTTPError\<close> it raises), the IP lookup, and the URL functions of the standard library.
\<close>

record resolver_env =
  get_request_or_error :: "string \<Rightarrow> nat + artist_page"
  get_ip_from_url :: "string \<Rightarrow> string"
  urlparse :: "string \<Rightarrow> parsed_url"
  geturl :: "parsed_url \<Rightarrow> string"
  urljoin :: "string \<Rightarrow> string \<Rightarrow> string"

datatype error =
    HTTPError nat
  | ValueError string
  | IndexError

text \<open>What the screamer is asked to print: \<open>info\<close>, \<open>success\<close> and \<open>error\<close> messages.\<close>

datatype scream = Info string | Success string | Error string

text \<open>
  The state of a \<open>Bandcamper\<close> object that the resolver touches: the collected URLs,
  the two policy flags, the errors the screamer has printed, and the requests the
  Page Fetcher has been asked for, earliest first.
\<close>

record bandcamper =
  urls :: "string set"
  fallback :: bool
  force_https :: bool
  screamed :: "scream list"
  requested :: "string list"

definition CUSTOM_DOMAIN_IP :: string where
  "CUSTOM_DOMAIN_IP = ''35.241.62.186''"

definition scream_error :: "string \<Rightarrow> bandcamper \<Rightarrow> bandcamper" where
  "scream_error msg st = st\<lparr>screamed := screamed st @ [Error msg]\<rparr>"

definition is_valid_custom_domain :: "resolver_env \<Rightarrow> string \<Rightarrow> bool" where
  "is_valid_custom_domain env url = (get_ip_from_url env url = CUSTOM_DOMAIN_IP)"

definition release_url :: "resolver_env \<Rightarrow> string \<Rightarrow> string \<Rightarrow> string" where
  \<comment> \<open>the body of the loop over the anchors of the music grid\<close>
  "release_url env base_url href =
     (let parsed = urlparse env href in
      if scheme parsed \<noteq> []
      then urljoin env (scheme parsed @ ''://'' @ strip_chars ''/ '' (netloc parsed))
                       (strip_chars ''/ '' (path parsed))
      else urljoin env base_url (strip_chars ''/ '' (path parsed)))"

definition add_urls_from_artist ::
  "resolver_env \<Rightarrow> string \<Rightarrow> bandcamper \<Rightarrow> error option \<times> bandcamper" where
  "add_urls_from_artist env source_url st =
     (let st1 = st\<lparr>requested := requested st @ [source_url]\<rparr> in
      case get_request_or_error env source_url of
        Inl code \<Rightarrow> (Some (HTTPError code), st1)
      | Inr page \<Rightarrow>
          (let base_url = ''https://'' @ strip_chars ''/ '' (netloc (urlparse env source_url)) in
           case music_grid page of
             None \<Rightarrow> (Some (ValueError []), st1)
           | Some hrefs \<Rightarrow>
               (None, st1\<lparr>urls := urls st1 \<union> set (map (release_url env base_url) hrefs)\<rparr>)))"

definition add_url :: "resolver_env \<Rightarrow> string \<Rightarrow> bandcamper \<Rightarrow> error option \<times> bandcamper" where
  "add_url env name st =
     (if subdomain_fullmatch name then
        (let url = ''https://'' @ lower name @ ''.bandcamp.com/music'' in
         case add_urls_from_artist env url st of
           (Some (HTTPError code), st1) \<Rightarrow>
             (if code = 404 then (None, scream_error (name @ '' not found'') st1)
              else (None, scream_error (''Request error while getting URLs for '' @ name) st1))
         | (Some (ValueError m), st1) \<Rightarrow>
             (None, scream_error (''No releases found for '' @ name) st1)
         | (Some e, st1) \<Rightarrow> (Some e, st1)
         | (None, st1) \<Rightarrow> (None, st1))
      else
        (let parsed0 = urlparse env name;
             parsed_url =
               (if scheme parsed0 = [] then urlparse env (''https://'' @ name)
                else if force_https st then parsed0\<lparr>scheme := ''https''\<rparr>
                else parsed0);
             url = geturl env parsed_url
         in if url_fullmatch (netloc parsed_url) \<or> is_valid_custom_domain env url then
              (if strip_chars ''/ '' (path parsed_url) \<in> set [''music'', '''']
               then add_urls_from_artist env
                      (scheme parsed_url @ ''://'' @ netloc parsed_url @ ''/music'') st
               else (None, st\<lparr>urls := insert url (urls st)\<rparr>))
            else (Some (ValueError (name @ '' is not a valid Bandcamp URL or subdomain'')), st)))"

text \<open>
  The loop of \<open>__init__\<close> over the identifiers: an exception that leaves \<open>add_url\<close>
  leaves the loop, and the identifiers after it are not looked at.
\<close>

fun add_all :: "resolver_env \<Rightarrow> string list \<Rightarrow> bandcamper \<Rightarrow> error option \<times> bandcamper" where
  "add_all env [] st = (None, st)"
| "add_all env (name # names) st =
     (case add_url env name st of
        (Some e, st1) \<Rightarrow> (Some e, st1)
      | (None, st1) \<Rightarrow> add_all env names st1)"

definition new_bandcamper :: "bool \<Rightarrow> bool \<Rightarrow> bandcamper" where
  "new_bandcamper fb fh =
     \<lparr>urls = {}, fallback = fb, force_https = fh, screamed = [], requested = []\<rparr>"

text \<open>
  A concrete environment for evaluated instances: every fetch answers with the status
  \<open>code\<close>, and \<open>urlparse\<close> knows the one URL
  \<open>https://examplelabel.bandcamp.com/music\<close>.
\<close>

definition example_urlparse :: "string \<Rightarrow> parsed_url" where
  "example_urlparse s =
     (if s = ''https://examplelabel.bandcamp.com/music''
      then \<lparr>scheme = ''https'', netloc = ''examplelabel.bandcamp.com'', path = ''/music'',
            params = [], query = [], fragment = []\<rparr>
      else \<lparr>scheme = [], netloc = [], path = s, params = [], query = [], fragment = []\<rparr>)"

definition failing_env :: "nat \<Rightarrow> resolver_env" where
  "failing_env code =
     \<lparr>get_request_or_error = (\<lambda>u. Inl code),
      get_ip_from_url = (\<lambda>u. []),
      urlparse = example_urlparse,
      geturl = (\<lambda>p. scheme p @ ''://'' @ netloc p @ path p),
      urljoin = (\<lambda>b p. b @ ''/'' @ p)\<rparr>"

section \<open>Download Strategy Engine: the email request\<close>

text \<open>
  The loop of \<open>_get_download_url_from_email\<close> that waits for the email. The mailbox
  collaborator is \<open>get_messages\<close>: what \<open>mailbox.get_messages\<close> answers when it is
  asked after \<open>t\<close> units of sleep. \<open>timeout\<close> and \<open>time_sleeping\<close> are Python integers.
  The function returns what the loop ends with (the \<open>ValueError\<close>, or the first
  non-empty answer of the mailbox) and everything the loop did, in order.
\<close>

datatype event = Sleep int | Check_mailbox

definition email_not_received :: error where
  "email_not_received = ValueError ''Bandcamp email not received. Try increasing the timeout.''"

function poll_mailbox :: "(int \<Rightarrow> 'm list) \<Rightarrow> int \<Rightarrow> int \<Rightarrow> (error + 'm list) \<times> event list" where
  "poll_mailbox get_messages timeout time_sleeping =
     (if time_sleeping > timeout then (Inl email_not_received, [])
      else
        (let time_sleeping1 = time_sleeping + 1;
             msgs = get_messages time_sleeping1
         in if msgs \<noteq> [] then (Inr msgs, [Sleep 1, Check_mailbox])
            else (case poll_mailbox get_messages timeout time_sleeping1 of
                    (r, evs) \<Rightarrow> (r, Sleep 1 # Check_mailbox # evs))))"
  by pat_completeness auto
termination
  by (relation "measure (\<lambda>(g, timeout, t). nat (timeout + 1 - t))") auto

declare poll_mailbox.simps [simp del]

text \<open>
  The collaborators of the email request: whether the answer to the form POST has a
  true \<open>ok\<close> (and its text), the mailbox, and the \<open>href\<close> of the first anchor of a
  message body as BeautifulSoup finds it.
\<close>

record 'm email_env =
  post_ok :: bool
  post_text :: string
  get_messages :: "int \<Rightarrow> 'm list"
  first_href :: "'m \<Rightarrow> string"

definition get_download_url_from_email ::
  "'m email_env \<Rightarrow> int \<Rightarrow> (error + string) \<times> event list" where
  "get_download_url_from_email env timeout =
     (if \<not> post_ok env
      then (Inl (ValueError (''Email download request failed: '' @ post_text env)), [])
      else
        (case poll_mailbox (get_messages env) timeout 0 of
           (Inl e, evs) \<Rightarrow> (Inl e, evs)
         | (Inr msgs, evs) \<Rightarrow> (Inr (first_href env (hd msgs)), evs)))"

definition rounds :: "nat \<Rightarrow> event list" where
  \<comment> \<open>\<open>n\<close> times: sleep one unit, then ask the mailbox\<close>
  "rounds n = concat (replicate n [Sleep 1, Check_mailbox])"

definition empty_until :: "(int \<Rightarrow> 'm list) \<Rightarrow> int \<Rightarrow> nat \<Rightarrow> bool" where
  \<comment> \<open>the mailbox is empty at the checks \<open>t + 1\<close>, ..., \<open>t + n\<close>\<close>
  "empty_until g t n = list_all (\<lambda>k. g (t + int k) = []) [1..<Suc n]"

text \<open>
  What \<open>n\<close> rounds of the loop that started after \<open>t\<close> units can end with: the
  \<open>ValueError\<close> after as many rounds as the timeout leaves, all of them on an empty
  mailbox, or the answer of the \<open>n\<close>-th check, the first that is not empty.
\<close>

definition poll_outcome :: "(int \<Rightarrow> 'm list) \<Rightarrow> int \<Rightarrow> int \<Rightarrow> nat \<Rightarrow> (error + 'm list) \<Rightarrow> bool" where
  "poll_outcome g timeout t n r =
     (case r of
        Inl e \<Rightarrow> e = email_not_received \<and> int n = max 0 (timeout + 1 - t) \<and> empty_until g t n
      | Inr msgs \<Rightarrow> 0 < n \<and> g (t + int n) = msgs \<and> g (t + int n) \<noteq> [] \<and> empty_until g t (n - 1))"


section \<open>Download Strategy Engine\<close>

subsection \<open>Strings and paths\<close>

text \<open>\<open>str.split()\<close> with no argument: the maximal runs of non-whitespace characters.\<close>

fun split_acc :: "string \<Rightarrow> string \<Rightarrow> string list" where
  "split_acc w [] = (if w = [] then [] else [w])"
| "split_acc w (c # cs) =
     (if is_space c then (if w = [] then split_acc [] cs else w # split_acc [] cs)
      else split_acc (w @ [c]) cs)"

definition split_ws :: "string \<Rightarrow> string list" where
  "split_ws s = split_acc [] s"

text \<open>\<open>str.replace(old, new)\<close>: every occurrence of \<open>old\<close>, leftmost first, not overlapping.\<close>

function str_replace :: "string \<Rightarrow> string \<Rightarrow> string \<Rightarrow> string" where
  "str_replace old new [] = []"
| "str_replace old new (c # cs) =
     (if old \<noteq> [] \<and> prefix old (c # cs)
      then new @ str_replace old new (drop (length old) (c # cs))
      else c # str_replace old new cs)"
  by pat_completeness auto
termination
  by (relation "measure (\<lambda>(old, new, s). length s)") (auto simp: neq_Nil_conv)

text \<open>The decimal digits of a natural number, \<open>str(n)\<close>.\<close>

fun str_nat :: "nat \<Rightarrow> string" where
  "str_nat n = (if n < 10 then [''0123456789'' ! n]
                else str_nat (n div 10) @ [''0123456789'' ! (n mod 10)])"

declare str_nat.simps [simp del]

definition format_02d :: "int \<Rightarrow> string" where
  \<comment> \<open>the format specification \<open>02d\<close>: zero-padded to two characters, the sign included\<close>
  "format_02d i =
     (if i < 0 then CHR ''-'' # str_nat (nat (- i))
      else if i < 10 then CHR ''0'' # str_nat (nat i)
      else str_nat (nat i))"

text \<open>
  \<open>Path.suffix\<close>: the part of the last component from its last dot on, empty when
  that dot is the first or the last character of the component or there is none.
\<close>

definition path_name :: "string \<Rightarrow> string" where
  "path_name p = rev (takeWhile (\<lambda>c. c \<noteq> CHR ''/'') (rev p))"

definition path_suffix :: "string \<Rightarrow> string" where
  "path_suffix p =
     (let name = path_name p;
          ext = rev (takeWhile (\<lambda>c. c \<noteq> CHR ''.'') (rev name))
      in if CHR ''.'' \<in> set name \<and> ext \<noteq> [] \<and> length ext + 1 < length name
         then CHR ''.'' # ext else [])"

definition without_suffix :: "string \<Rightarrow> string" where
  \<comment> \<open>\<open>p.parent / p.stem\<close>\<close>
  "without_suffix p = take (length p - length (path_suffix p)) p"

subsection \<open>The release and the collaborators\<close>

text \<open>
  One entry of \<open>trackinfo\<close>: \<open>track_num\<close> (an integer or \<open>None\<close>), \<open>title\<close>, and
  \<open>file\<close>, which is \<open>None\<close> or a dictionary with the preview URL under \<open>mp3-128\<close>:
  \<open>info_file\<close> is that URL when \<open>track.get("file")\<close> is true.
\<close>

record track_info =
  info_track_num :: "int option"
  info_title :: string
  info_file :: "string option"

text \<open>
  The dictionary that \<open>_get_music_data\<close> returns, with the keys the engine reads.
  \<open>release_date\<close>, \<open>album_title\<close> and \<open>freeDownloadPage\<close> are read with \<open>get\<close>
  and may be absent; \<open>require_email\<close> is the truth value of
  \<open>current.get("require_email")\<close>.
\<close>

record music_data =
  data_artist :: string
  data_current_title :: string
  data_release_date :: "string option"
  data_publish_date :: string
  data_item_type :: string
  data_album_title :: "string option"
  data_freeDownloadPage :: "string option"
  data_require_email :: bool
  data_trackinfo :: "track_info list"

text \<open>The answer of the stat endpoint.\<close>

record stat_reply =
  stat_result :: string
  stat_download_url :: string
  stat_retry_url :: string

text \<open>One call of \<open>requester.download_to_file\<close>: URL, destination, file name template, label.\<close>

record download_request =
  req_url :: string
  req_destination :: string
  req_template :: string
  req_label :: "string option"

text \<open>
  The collaborators of the engine. A fetch answers with the status code of its
  \<open>HTTPError\<close> or with what the engine reads from the page: the release page gives the
  \<open>music_data\<close>, the download page the dictionary \<open>downloads\<close> of its first download
  item (format to descriptor URL), the stat endpoint its reply.
  \<open>download_to_file\<close> returns the path of the file it wrote;
  \<open>get_random_filename_template\<close> is asked once for each format.
\<close>

record 'm engine_env =
  release_page :: "string \<Rightarrow> nat + music_data"
  download_page :: "string \<Rightarrow> nat + (string \<Rightarrow> string option)"
  stat_download :: "string \<Rightarrow> nat + stat_reply"
  download_to_file :: "download_request \<Rightarrow> string"
  get_random_filename_template :: "string \<Rightarrow> string"
  url_parse :: "string \<Rightarrow> parsed_url"
  url_unparse :: "parsed_url \<Rightarrow> string"
  email :: "'m email_env"

subsection \<open>Fallback procedure\<close>

text \<open>
  The loop of \<open>download_fallback_mp3\<close>. \<open>title\<close> is the parameter of the function:
  the loop assigns to it when it is \<open>None\<close>, and the assignment stays for the tracks
  that follow. A missing track number makes \<open>track_num\<close> the integer \<open>1\<close>, which the
  f-string prints as \<open>1\<close>.
\<close>

fun fallback_requests ::
  "track_info list \<Rightarrow> string \<Rightarrow> string \<Rightarrow> string option \<Rightarrow> string \<Rightarrow> download_request list" where
  "fallback_requests [] artist album title destination = []"
| "fallback_requests (track # tracks) artist album title destination =
     (case info_file track of
        None \<Rightarrow> fallback_requests tracks artist album title destination
      | Some preview \<Rightarrow>
          (let track_num = (case info_track_num track of
                              None \<Rightarrow> str_nat 1
                            | Some n \<Rightarrow> format_02d n);
               title1 = (case title of None \<Rightarrow> info_title track | Some t \<Rightarrow> t)
           in \<lparr>req_url = preview, req_destination = destination,
               req_template =
                 artist @ '' - '' @ album @ '' - '' @ track_num @ '' '' @ title1 @ ''{ext}'',
               req_label = Some (track_num @ ''.mp3'')\<rparr>
              # fallback_requests tracks artist album (Some title1) destination))"

definition download_fallback_mp3 ::
  "'m engine_env \<Rightarrow> track_info list \<Rightarrow> string \<Rightarrow> string \<Rightarrow> string option \<Rightarrow> string \<Rightarrow> string list" where
  "download_fallback_mp3 env track_info artist album title destination =
     map (download_to_file env) (fallback_requests track_info artist album title destination)"

subsection \<open>Free-Download procedure\<close>

definition fwd_url_of :: "'m engine_env \<Rightarrow> string \<Rightarrow> string" where
  \<comment> \<open>the stat endpoint of a descriptor URL\<close>
  "fwd_url_of env descriptor_url =
     (let parsed_url = url_parse env descriptor_url;
          stat_path = str_replace ''/download/'' ''/statdownload/'' (path parsed_url)
      in url_unparse env (parsed_url\<lparr>path := stat_path\<rparr>))"

definition fetch_artifact :: "'m engine_env \<Rightarrow> string \<Rightarrow> string \<Rightarrow> string \<Rightarrow> string \<Rightarrow> string" where
  \<comment> \<open>the end of the loop body: download, and unpack a zip next to where it was written\<close>
  "fetch_artifact env download_url destination item_type fmt =
     (let label = (if item_type = ''album'' then Some (fmt @ ''.zip'') else None);
          file_path = download_to_file env
            \<lparr>req_url = download_url, req_destination = destination,
             req_template = get_random_filename_template env fmt, req_label = label\<rparr>
      in if path_suffix file_path = ''.zip'' then without_suffix file_path else file_path)"

text \<open>
  The loop of \<open>_free_download\<close> over the requested formats. An \<open>HTTPError\<close> of the stat
  request leaves the loop; what was printed before stays printed.
\<close>

fun free_download_formats ::
  "'m engine_env \<Rightarrow> (string \<Rightarrow> string option) \<Rightarrow> string \<Rightarrow> string \<Rightarrow> string list
     \<Rightarrow> (error + string list) \<times> scream list" where
  "free_download_formats env downloadable destination item_type [] = (Inr [], [])"
| "free_download_formats env downloadable destination item_type (fmt # fmts) =
     (case downloadable fmt of
        None \<Rightarrow>
          (case free_download_formats env downloadable destination item_type fmts of
             (r, ss) \<Rightarrow> (r, Error (fmt @ '' download not found'') # ss))
      | Some descriptor_url \<Rightarrow>
          (let fwd_url = fwd_url_of env descriptor_url in
           case stat_download env fwd_url of
             Inl code \<Rightarrow> (Inl (HTTPError code), [])
           | Inr fwd_data \<Rightarrow>
               if lower (stat_result fwd_data) = ''ok'' \<or> lower (stat_result fwd_data) = ''err''
               then
                 (let download_url =
                        (if lower (stat_result fwd_data) = ''ok'' then stat_download_url fwd_data
                         else stat_retry_url fwd_data);
                      entry = fetch_artifact env download_url destination item_type fmt
                  in case free_download_formats env downloadable destination item_type fmts of
                       (Inl e, ss) \<Rightarrow> (Inl e, ss)
                     | (Inr downloaded_paths, ss) \<Rightarrow> (Inr (entry # downloaded_paths), ss))
               else
                 (case free_download_formats env downloadable destination item_type fmts of
                    (r, ss) \<Rightarrow>
                      (r, Error (''Error downloading '' @ fmt @ '' from '' @ fwd_url) # ss))))"

definition free_download ::
  "'m engine_env \<Rightarrow> string \<Rightarrow> string \<Rightarrow> string \<Rightarrow> string list
     \<Rightarrow> (error + string list) \<times> scream list" where
  "free_download env url destination item_type download_formats =
     (case download_page env url of
        Inl code \<Rightarrow> (Inl (HTTPError code), [])
      | Inr downloadable \<Rightarrow>
          free_download_formats env downloadable destination item_type download_formats)"

subsection \<open>Choice of the strategy\<close>

definition get_music_data :: "'m engine_env \<Rightarrow> string \<Rightarrow> error + music_data" where
  "get_music_data env url =
     (case release_page env url of
        Inl code \<Rightarrow> if code = 404 then Inl (ValueError (url @ '' not found''))
                    else Inl (HTTPError code)
      | Inr data \<Rightarrow> Inr data)"

definition release_year :: "music_data \<Rightarrow> error + string" where
  \<comment> \<open>\<open>(current.get("release_date") or current["publish_date"]).split()[2]\<close>\<close>
  "release_year music_data =
     (let date = (case data_release_date music_data of
                    Some d \<Rightarrow> if d \<noteq> [] then d else data_publish_date music_data
                  | None \<Rightarrow> data_publish_date music_data);
          fields = split_ws date
      in if 2 < length fields then Inr (fields ! 2) else Inl IndexError)"

definition truthy :: "string option \<Rightarrow> bool" where
  \<comment> \<open>the truth value of \<open>d.get(key)\<close> for a string value\<close>
  "truthy v = (case v of None \<Rightarrow> False | Some s \<Rightarrow> s \<noteq> [])"

text \<open>
  How \<open>download_from_url\<close> can end: an exception leaves it, it returns before any file
  is looked for, or it reaches the placement of the files with \<open>file_paths\<close>.
\<close>

datatype download_result = Raised error | Returned | File_paths "string list"

text \<open>
  \<open>download_from_url\<close> up to the point where \<open>file_paths\<close> is complete (line 402).
  \<open>set(download_formats)\<close> is the list without its duplicates; the order in which
  Python iterates over the set is not fixed, and nothing below depends on it. The
  check \<open>if not music_data\<close> cannot succeed, since \<open>_get_music_data\<close> always sets
  \<open>art_url\<close>. The timeout of the email request is its default, 60.
\<close>

definition download_from_url ::
  "'m engine_env \<Rightarrow> bandcamper \<Rightarrow> string \<Rightarrow> string \<Rightarrow> string list
     \<Rightarrow> download_result \<times> scream list" where
  "download_from_url env self url destination formats =
     (let searching = [Info (''Searching available downloads for URL '' @ url)];
          download_mp3 = (''mp3-128'' \<in> set (remdups formats));
          download_formats = removeAll ''mp3-128'' (remdups formats)
      in case get_music_data env url of
           Inl (ValueError m) \<Rightarrow> (Returned, searching @ [Error m])
         | Inl (HTTPError code) \<Rightarrow>
             (Returned, searching @ [Error (''Request error ('' @ str_nat code
                @ '') when getting music data from '' @ url)])
         | Inl e \<Rightarrow> (Raised e, searching)
         | Inr music_data \<Rightarrow>
             (case release_year music_data of
                Inl e \<Rightarrow> (Raised e, searching)
              | Inr year \<Rightarrow>
                  (let artist = data_artist music_data;
                       downloading_str =
                         ''Downloading '' @ artist @ '' - '' @ data_current_title music_data;
                       album = (if data_item_type music_data = ''album''
                                then data_current_title music_data
                                else (case data_album_title music_data of
                                        Some a \<Rightarrow> a | None \<Rightarrow> []));
                       title = (if data_item_type music_data = ''album'' then None
                                else Some (data_current_title music_data));
                       fallback_mp3 = download_fallback_mp3 env (data_trackinfo music_data)
                                        artist album title destination
                   in if truthy (data_freeDownloadPage music_data) then
                        (case free_download env (the (data_freeDownloadPage music_data))
                                destination (data_item_type music_data) download_formats of
                           (Inl e, ss) \<Rightarrow>
                             (Raised e,
                              searching @ [Success (''Free download found! '' @ downloading_str)] @ ss)
                         | (Inr file_paths, ss) \<Rightarrow>
                             (File_paths (if download_mp3 then file_paths @ fallback_mp3
                                          else file_paths),
                              searching @ [Success (''Free download found! '' @ downloading_str)] @ ss))
                      else if data_require_email music_data then
                        (case fst (get_download_url_from_email (email env) 60) of
                           Inl e \<Rightarrow>
                             (Raised e,
                              searching @ [Success (''Email download found! '' @ downloading_str)])
                         | Inr download_url \<Rightarrow>
                             (case free_download env download_url destination
                                     (data_item_type music_data) download_formats of
                                (Inl e, ss) \<Rightarrow>
                                  (Raised e,
                                   searching
                                   @ [Success (''Email download found! '' @ downloading_str)] @ ss)
                              | (Inr file_paths, ss) \<Rightarrow>
                                  (File_paths (if download_mp3 then file_paths @ fallback_mp3
                                               else file_paths),
                                   searching
                                   @ [Success (''Email download found! '' @ downloading_str)] @ ss)))
                      else if fallback self \<or> download_mp3 then
                        (File_paths fallback_mp3,
                         searching @ [Success (''MP3-128 download found! '' @ downloading_str)])
                      else if \<not> fallback self then (Returned, searching)
                      else
                        (Raised (ValueError (''No free download found for '' @ url
                           @ ''. Try setting fallback to True.'')),
                         searching))))"

text \<open>
  \<open>download_all\<close>: the releases of \<open>self.urls\<close> one after the other, in the order the
  list gives (the order in which Python iterates over the set is not fixed);
  an exception that leaves \<open>download_from_url\<close> leaves the loop. It returns that
  exception, if any, and for each release that was processed how it ended.
\<close>

fun download_all ::
  "'m engine_env \<Rightarrow> bandcamper \<Rightarrow> string list \<Rightarrow> string \<Rightarrow> string list
     \<Rightarrow> error option \<times> (download_result \<times> scream list) list" where
  "download_all env self [] destination formats = (None, [])"
| "download_all env self (url # url_list) destination formats =
     (case download_from_url env self url destination formats of
        (Raised e, ss) \<Rightarrow> (Some e, [(Raised e, ss)])
      | (r, ss) \<Rightarrow>
          (case download_all env self url_list destination formats of
             (e, rs) \<Rightarrow> (e, (r, ss) # rs)))"

subsection \<open>The Free-Download procedure in the words of the specification\<close>

text \<open>
  What the specification says about one requested format: absent from the mapping, it
  is skipped as "not found"; present, the result code of the stat endpoint gives the
  URL (\<open>ok\<close> the direct URL, \<open>err\<close> the retry URL), and any other code skips the
  format as "errored".
\<close>

datatype format_outcome = Collected string | Skipped scream

definition spec_url_used :: "stat_reply \<Rightarrow> string option" where
  "spec_url_used reply =
     (if lower (stat_result reply) = ''ok'' then Some (stat_download_url reply)
      else if lower (stat_result reply) = ''err'' then Some (stat_retry_url reply)
      else None)"

definition spec_format_outcome ::
  "'m engine_env \<Rightarrow> (string \<Rightarrow> string option) \<Rightarrow> string \<Rightarrow> string \<Rightarrow> string \<Rightarrow> format_outcome" where
  "spec_format_outcome env downloadable destination item_type fmt =
     (case downloadable fmt of
        None \<Rightarrow> Skipped (Error (fmt @ '' download not found''))
      | Some descriptor_url \<Rightarrow>
          (case stat_download env (fwd_url_of env descriptor_url) of
             Inl code \<Rightarrow> Skipped (Error [])
           | Inr reply \<Rightarrow>
               (case spec_url_used reply of
                  Some u \<Rightarrow> Collected (fetch_artifact env u destination item_type fmt)
                | None \<Rightarrow>
                    Skipped (Error (''Error downloading '' @ fmt @ '' from ''
                                    @ fwd_url_of env descriptor_url)))))"

fun collected :: "format_outcome list \<Rightarrow> string list" where
  "collected [] = []"
| "collected (Collected p # os) = p # collected os"
| "collected (Skipped s # os) = collected os"

fun skipped :: "format_outcome list \<Rightarrow> scream list" where
  "skipped [] = []"
| "skipped (Collected p # os) = skipped os"
| "skipped (Skipped s # os) = s # skipped os"

definition stat_answers :: "'m engine_env \<Rightarrow> (string \<Rightarrow> string option) \<Rightarrow> string \<Rightarrow> bool" where
  \<comment> \<open>the stat request for this format, if one is made, is answered without an \<open>HTTPError\<close>\<close>
  "stat_answers env downloadable fmt =
     (case downloadable fmt of
        None \<Rightarrow> True
      | Some descriptor_url \<Rightarrow>
          (case stat_download env (fwd_url_of env descriptor_url) of
             Inl code \<Rightarrow> False
           | Inr reply \<Rightarrow> True))"

subsection \<open>A concrete release and concrete collaborators\<close>

text \<open>
  An album of three tracks: the first has no track number, the third no preview.
  The download page offers \<open>flac\<close> (the stat endpoint answers \<open>ok\<close>), \<open>mp3-320\<close>
  (\<open>err\<close>) and \<open>wav\<close> (\<open>pending\<close>). \<open>example_url_parse\<close> agrees with \<open>urlparse\<close>
  on URLs of the form \<open>https://p4.bcbits.com/\<close> path.
\<close>

definition example_tracks :: "track_info list" where
  "example_tracks =
     [\<lparr>info_track_num = None, info_title = ''Intro'',
       info_file = Some ''https://t4.bcbits.com/stream/1''\<rparr>,
      \<lparr>info_track_num = Some 2, info_title = ''Second'',
       info_file = Some ''https://t4.bcbits.com/stream/2''\<rparr>,
      \<lparr>info_track_num = Some 3, info_title = ''Third'', info_file = None\<rparr>]"

definition example_release :: "string option \<Rightarrow> bool \<Rightarrow> music_data" where
  "example_release free_page gated =
     \<lparr>data_artist = ''Artist'', data_current_title = ''Album'',
      data_release_date = Some ''01 Jan 2020 00:00:00 GMT'',
      data_publish_date = ''02 Feb 2019 00:00:00 GMT'',
      data_item_type = ''album'', data_album_title = None,
      data_freeDownloadPage = free_page, data_require_email = gated,
      data_trackinfo = example_tracks\<rparr>"

definition example_url_parse :: "string \<Rightarrow> parsed_url" where
  "example_url_parse u =
     \<lparr>scheme = take 5 u, netloc = take 13 (drop 8 u), path = drop 21 u,
      params = [], query = [], fragment = []\<rparr>"

definition example_stat :: "string \<Rightarrow> nat + stat_reply" where
  "example_stat u =
     (if u = ''https://p4.bcbits.com/statdownload/album/flac''
      then Inr \<lparr>stat_result = ''ok'', stat_download_url = ''https://p4.bcbits.com/get/flac'',
                stat_retry_url = []\<rparr>
      else if u = ''https://p4.bcbits.com/statdownload/album/mp3-320''
      then Inr \<lparr>stat_result = ''err'', stat_download_url = [],
                stat_retry_url = ''https://p4.bcbits.com/retry/mp3-320''\<rparr>
      else Inr \<lparr>stat_result = ''pending'', stat_download_url = [], stat_retry_url = []\<rparr>)"

definition example_downloads :: "string \<Rightarrow> string option" where
  "example_downloads =
     map_of [(''flac'', ''https://p4.bcbits.com/download/album/flac''),
             (''mp3-320'', ''https://p4.bcbits.com/download/album/mp3-320''),
             (''wav'', ''https://p4.bcbits.com/download/album/wav'')]"

definition example_engine :: "music_data \<Rightarrow> unit engine_env" where
  "example_engine release =
     \<lparr>release_page = (\<lambda>u. Inr release),
      download_page = (\<lambda>u. Inr example_downloads),
      stat_download = example_stat,
      download_to_file = (\<lambda>r. req_destination r @ ''/''
                              @ (case req_label r of Some l \<Rightarrow> l | None \<Rightarrow> req_template r)),
      get_random_filename_template = (\<lambda>fmt. ''tmp{ext}''),
      url_parse = example_url_parse,
      url_unparse = (\<lambda>p. scheme p @ ''://'' @ netloc p @ path p),
      email = \<lparr>post_ok = True, post_text = [],
               get_messages = (\<lambda>t. if t < 2 then [] else [()]),
               first_href = (\<lambda>m. ''https://bandcamp.com/download?id=1'')\<rparr>\<rparr>"

section \<open>Track Matcher\<close>

text \<open>
  One entry of the track list of the Metadata Extractor, a dictionary with the keys
  \<open>number\<close>, \<open>title\<close> and \<open>duration\<close>; the matcher reads the first two with \<open>get\<close>.
\<close>

record meta_track =
  meta_number :: "int option"
  meta_title :: "string option"
  meta_duration :: "string option"

definition path_stem :: "string \<Rightarrow> string" where
  \<comment> \<open>\<open>Path.stem\<close>: the last component without its suffix\<close>
  "path_stem p = take (length (path_name p) - length (path_suffix p)) (path_name p)"

definition strip_ws :: "string \<Rightarrow> string" where
  \<comment> \<open>\<open>str.strip()\<close>\<close>
  "strip_ws s = rev (dropWhile is_space (rev (dropWhile is_space s)))"

definition is_separator :: "char \<Rightarrow> bool" where
  \<comment> \<open>the class \<open>[_\-\s]\<close>\<close>
  "is_separator c = (c = CHR ''_'' \<or> c = CHR ''-'' \<or> is_space c)"

text \<open>
  \<open>re.sub(r'[_\-\s]+', ' ', s)\<close>: every maximal run of separators becomes one space.
  The flag says that the character before was a separator.
\<close>

fun sub_separators :: "bool \<Rightarrow> string \<Rightarrow> string" where
  "sub_separators in_run [] = []"
| "sub_separators in_run (c # cs) =
     (if is_separator c
      then (if in_run then sub_separators True cs else CHR '' '' # sub_separators True cs)
      else c # sub_separators False cs)"

definition clean :: "string \<Rightarrow> string" where
  "clean s = strip_ws (sub_separators False s)"

text \<open>\<open>a in b\<close> for strings: \<open>a\<close> occurs in \<open>b\<close> as a contiguous piece.\<close>

fun str_in :: "string \<Rightarrow> string \<Rightarrow> bool" where
  "str_in a [] = (a = [])"
| "str_in a (c # cs) = (prefix a (c # cs) \<or> str_in a cs)"

text \<open>
  \<open>_fuzzy_match\<close> with its default threshold 0.6. The quotient is taken in the
  rationals; the floating-point quotient of the source compares with 0.6 in the same
  way as long as the two strings have fewer than \<open>10^15\<close> distinct words.
\<close>

definition fuzzy_match :: "string \<Rightarrow> string \<Rightarrow> bool" where
  "fuzzy_match str1 str2 =
     (let clean1 = clean str1; clean2 = clean str2 in
      if str_in clean1 clean2 \<or> str_in clean2 clean1 then True
      else
        (let words1 = set (split_ws clean1); words2 = set (split_ws clean2) in
         if words1 = {} \<or> words2 = {} then False
         else
           (let overlap = card (words1 \<inter> words2);
                total_words = card (words1 \<union> words2)
            in (of_nat overlap / of_nat total_words :: rat) \<ge> 6 / 10)))"

text \<open>\<open>re.search(r'(\d+)', s)\<close>: the first maximal run of digits, if there is a digit.\<close>

definition first_digits :: "string \<Rightarrow> string option" where
  "first_digits s =
     (let rest = dropWhile (\<lambda>c. \<not> is_digit c) s
      in if rest = [] then None else Some (takeWhile is_digit rest))"

definition digit_value :: "char \<Rightarrow> nat" where
  "digit_value c = (case map_of (zip ''0123456789'' [0 ..< 10]) c of Some d \<Rightarrow> d | None \<Rightarrow> 0)"

definition int_of_digits :: "string \<Rightarrow> int" where
  \<comment> \<open>\<open>int(s)\<close> for a string of digits\<close>
  "int_of_digits s = int (foldl (\<lambda>n c. 10 * n + digit_value c) 0 s)"

definition find_matching_track :: "string \<Rightarrow> meta_track list \<Rightarrow> meta_track option" where
  "find_matching_track file_path tracks =
     (if tracks = [] then None
      else
        (let filename = lower (path_stem file_path);
             by_number =
               (case first_digits filename of
                  Some digits \<Rightarrow>
                    find (\<lambda>track. meta_number track = Some (int_of_digits digits)) tracks
                | None \<Rightarrow> None)
         in case by_number of
              Some track \<Rightarrow> Some track
            | None \<Rightarrow>
                (case find (\<lambda>track.
                         (let track_title =
                                lower (case meta_title track of Some t \<Rightarrow> t | None \<Rightarrow> [])
                          in track_title \<noteq> [] \<and> fuzzy_match filename track_title)) tracks of
                   Some track \<Rightarrow> Some track
                 | None \<Rightarrow> if length tracks = 1 then Some (hd tracks) else None)))"

subsection \<open>The Track Matcher in the words of the specification\<close>

text \<open>
  The four steps as the specification lists them. In step 2 a title matches when one
  normalized string contains the other or the word-set overlap ratio is at least 0.6;
  \<open>spec_find_matching_track\<close> tries every track there, \<open>titled_find_matching_track\<close>
  only the tracks that have a non-empty title.
\<close>

definition overlap_ratio :: "string \<Rightarrow> string \<Rightarrow> rat" where
  "overlap_ratio a b =
     of_nat (card (set (split_ws a) \<inter> set (split_ws b)))
     / of_nat (card (set (split_ws a) \<union> set (split_ws b)))"

definition spec_fuzzy :: "string \<Rightarrow> string \<Rightarrow> bool" where
  "spec_fuzzy a b =
     (str_in (clean a) (clean b) \<or> str_in (clean b) (clean a)
      \<or> overlap_ratio (clean a) (clean b) \<ge> 6 / 10)"

definition title_of :: "meta_track \<Rightarrow> string" where
  "title_of track = lower (case meta_title track of Some t \<Rightarrow> t | None \<Rightarrow> [])"

definition step_number :: "string \<Rightarrow> meta_track list \<Rightarrow> meta_track option" where
  "step_number stem tracks =
     (case first_digits stem of
        None \<Rightarrow> None
      | Some digits \<Rightarrow> find (\<lambda>track. meta_number track = Some (int_of_digits digits)) tracks)"

definition step_single :: "meta_track list \<Rightarrow> meta_track option" where
  "step_single tracks = (case tracks of [track] \<Rightarrow> Some track | _ \<Rightarrow> None)"

fun first_of :: "'a option list \<Rightarrow> 'a option" where
  "first_of [] = None"
| "first_of (Some x # steps) = Some x"
| "first_of (None # steps) = first_of steps"

definition spec_find_matching_track :: "string \<Rightarrow> meta_track list \<Rightarrow> meta_track option" where
  "spec_find_matching_track file_path tracks =
     (let stem = lower (path_stem file_path) in
      first_of [step_number stem tracks,
                find (\<lambda>track. spec_fuzzy stem (title_of track)) tracks,
                step_single tracks])"

definition titled_find_matching_track :: "string \<Rightarrow> meta_track list \<Rightarrow> meta_track option" where
  "titled_find_matching_track file_path tracks =
     (let stem = lower (path_stem file_path) in
      first_of [step_number stem tracks,
                find (\<lambda>track. title_of track \<noteq> [] \<and> spec_fuzzy stem (title_of track)) tracks,
                step_single tracks])"

section \<open>Metadata Extractor: the release year\<close>

text \<open>
  What \<open>_extract_release_year\<close> gets from BeautifulSoup, \<open>json\<close> and \<open>re\<close>, source by
  source:
  \<^item> \<open>credits_released\<close>: group 2 of the first match of the "released" pattern in the
    text of the credits block; \<open>None\<close> without block or match;
  \<^item> \<open>meta_release_dates\<close>: the \<open>content\<close> of every \<open>meta\<close> tag whose property is
    \<open>music:release_date\<close>, in document order;
  \<^item> \<open>pagedata_dates\<close>: \<open>str\<close> of \<open>release_date\<close> and of \<open>publish_date\<close> of the
    \<open>current\<close> item of the data blob, for those that are there and true, in this
    order; empty without blob or when it cannot be read;
  \<^item> \<open>jsonld_dates\<close>: \<open>datePublished\<close> of every JSON-LD script that has one, in
    document order;
  \<^item> \<open>text_years_2000\<close>, \<open>text_years_1900\<close>: what \<open>findall\<close> returns on the page text
    for the patterns \<open>\b(20[0-2][0-9])\b\<close> and \<open>\b(19[5-9][0-9])\b\<close>;
  \<^item> \<open>copyright_sign_years\<close>, \<open>copyright_word_years\<close>: what \<open>findall\<close> returns for
    the two copyright patterns.
\<close>

record year_signals =
  credits_released :: "string option"
  meta_release_dates :: "string list"
  pagedata_dates :: "string list"
  jsonld_dates :: "string list"
  text_years_2000 :: "string list"
  text_years_1900 :: "string list"
  copyright_sign_years :: "string list"
  copyright_word_years :: "string list"

definition in_bounds :: "string \<Rightarrow> bool" where
  \<comment> \<open>\<open>year.isdigit() and len(year) == 4\<close> and \<open>1950 <= int(year) <= 2030\<close>\<close>
  "in_bounds year =
     (year \<noteq> [] \<and> list_all is_digit year \<and> length year = 4
      \<and> 1950 \<le> int_of_digits year \<and> int_of_digits year \<le> 2030)"

text \<open>\<open>re.search(r'(\d{4})', s)\<close>: the first four digits in a row.\<close>

fun search_4_digits :: "string \<Rightarrow> string option" where
  "search_4_digits [] = None"
| "search_4_digits (c # cs) =
     (if 4 \<le> length (c # cs) \<and> list_all is_digit (take 4 (c # cs))
      then Some (take 4 (c # cs))
      else search_4_digits cs)"

text \<open>The loops of priorities 2 and 3: the first date whose first four digits are in bounds.\<close>

fun first_year_in_dates :: "string list \<Rightarrow> string option" where
  "first_year_in_dates [] = None"
| "first_year_in_dates (content # rest) =
     (case search_4_digits content of
        Some year \<Rightarrow> if in_bounds year then Some year else first_year_in_dates rest
      | None \<Rightarrow> first_year_in_dates rest)"

text \<open>The loop of priority 4: the first date whose first four characters are in bounds.\<close>

fun first_year_prefix :: "string list \<Rightarrow> string option" where
  "first_year_prefix [] = None"
| "first_year_prefix (date # rest) =
     (if in_bounds (take 4 date) then Some (take 4 date) else first_year_prefix rest)"

text \<open>The inner loop of priority 6: the first match in bounds.\<close>

fun first_year_in_bounds :: "string list \<Rightarrow> string option" where
  "first_year_in_bounds [] = None"
| "first_year_in_bounds (year # rest) =
     (if in_bounds year then Some year else first_year_in_bounds rest)"

text \<open>The body of the loop of priority 5: \<open>str(max(valid_years))\<close> when there is one.\<close>

fun max_list :: "int \<Rightarrow> int list \<Rightarrow> int" where
  "max_list m [] = m"
| "max_list m (x # xs) = max_list (max m x) xs"

definition most_recent_year :: "string list \<Rightarrow> string option" where
  "most_recent_year matches =
     (case map int_of_digits (filter in_bounds matches) of
        [] \<Rightarrow> None
      | y # ys \<Rightarrow> Some (str_nat (nat (max_list y ys))))"

definition extract_release_year :: "year_signals \<Rightarrow> string option" where
  "extract_release_year page =
     (case (case credits_released page of
              Some year \<Rightarrow> if in_bounds year then Some year else None
            | None \<Rightarrow> None) of
        Some year \<Rightarrow> Some year
      | None \<Rightarrow>
     (case first_year_in_dates (meta_release_dates page) of
        Some year \<Rightarrow> Some year
      | None \<Rightarrow>
     (case first_year_in_dates (pagedata_dates page) of
        Some year \<Rightarrow> Some year
      | None \<Rightarrow>
     (case first_year_prefix (jsonld_dates page) of
        Some year \<Rightarrow> Some year
      | None \<Rightarrow>
     (case most_recent_year (text_years_2000 page) of
        Some year \<Rightarrow> Some year
      | None \<Rightarrow>
     (case most_recent_year (text_years_1900 page) of
        Some year \<Rightarrow> Some year
      | None \<Rightarrow>
     (case first_year_in_bounds (copyright_sign_years page) of
        Some year \<Rightarrow> Some year
      | None \<Rightarrow> first_year_in_bounds (copyright_word_years page))))))))"

subsection \<open>The cascade in the words of the specification\<close>

text \<open>
  The candidates of the six sources in priority order (the two patterns of the fifth
  and of the sixth source one after the other), each with how the source chooses among
  its candidates: the first in bounds, or the most recent in bounds.
\<close>

datatype choice = First_in_bounds | Most_recent

definition year_sources :: "year_signals \<Rightarrow> (choice \<times> string list) list" where
  "year_sources page =
     [(First_in_bounds, (case credits_released page of Some year \<Rightarrow> [year] | None \<Rightarrow> [])),
      (First_in_bounds, List.map_filter search_4_digits (meta_release_dates page)),
      (First_in_bounds, List.map_filter search_4_digits (pagedata_dates page)),
      (First_in_bounds, map (take 4) (jsonld_dates page)),
      (Most_recent, text_years_2000 page),
      (Most_recent, text_years_1900 page),
      (First_in_bounds, copyright_sign_years page),
      (First_in_bounds, copyright_word_years page)]"

definition year_value :: "string \<Rightarrow> int" where
  "year_value year = int_of_digits year"

fun pick_year :: "choice \<times> string list \<Rightarrow> string option" where
  "pick_year (First_in_bounds, candidates) = find in_bounds candidates"
| "pick_year (Most_recent, candidates) =
     (if filter in_bounds candidates = [] then None
      else Some (str_nat (nat (Max (year_value ` set (filter in_bounds candidates))))))"

definition spec_release_year :: "year_signals \<Rightarrow> string option" where
  "spec_release_year page = first_of (map pick_year (year_sources page))"

definition no_year_in_bounds :: "choice \<times> string list \<Rightarrow> bool" where
  "no_year_in_bounds source = list_all (\<lambda>year. \<not> in_bounds year) (snd source)"

text \<open>
  A page with conflicting signals: the credits say 1900, the meta tag 2019, the data
  blob 2018, the text 2021 and 2023.
\<close>

definition example_signals :: year_signals where
  "example_signals =
     \<lparr>credits_released = Some ''1900'',
      meta_release_dates = [''no date'', ''20190501''],
      pagedata_dates = [''01 Jan 2018 00:00:00 GMT''],
      jsonld_dates = [],
      text_years_2000 = [''2021'', ''2023''],
      text_years_1900 = [],
      copyright_sign_years = [''2023''],
      copyright_word_years = []\<rparr>"

section \<open>Path Templater and Sanitizer\<close>

subsection \<open>Paths of \<open>pathlib\<close> on a POSIX host\<close>

text \<open>
  A path is kept as its string. \<open>pathlib\<close> splits a string at the slashes, drops the
  empty components and the components \<open>.\<close>, and keeps the root (\<open>/\<close>, or \<open>//\<close> for
  exactly two leading slashes). \<open>path_div a b\<close> is \<open>str(Path(a) / b)\<close>: an absolute
  \<open>b\<close> replaces \<open>a\<close>.
\<close>

fun split_slash :: "string \<Rightarrow> string \<Rightarrow> string list" where
  "split_slash w [] = [w]"
| "split_slash w (c # cs) =
     (if c = CHR ''/'' then w # split_slash [] cs else split_slash (w @ [c]) cs)"

fun join_slash :: "string list \<Rightarrow> string" where
  "join_slash [] = []"
| "join_slash [p] = p"
| "join_slash (p # q # ps) = p @ ''/'' @ join_slash (q # ps)"

definition posix_root :: "string \<Rightarrow> string" where
  "posix_root s =
     (if take 2 s = ''//'' \<and> take 3 s \<noteq> ''///'' then ''//''
      else if take 1 s = ''/'' then ''/'' else [])"

definition posix_parts :: "string \<Rightarrow> string list" where
  "posix_parts s = filter (\<lambda>p. p \<noteq> [] \<and> p \<noteq> ''.'') (split_slash [] s)"

definition path_str :: "string \<Rightarrow> string list \<Rightarrow> string" where
  "path_str anchor parts =
     (if anchor = [] \<and> parts = [] then ''.'' else anchor @ join_slash parts)"

definition posix_path :: "string \<Rightarrow> string" where
  \<comment> \<open>\<open>str(Path(s))\<close>\<close>
  "posix_path s = path_str (posix_root s) (posix_parts s)"

definition path_div :: "string \<Rightarrow> string \<Rightarrow> string" where
  "path_div a b =
     (if posix_root b \<noteq> [] then posix_path b
      else path_str (posix_root a) (posix_parts a @ posix_parts b))"

subsection \<open>Naming templates\<close>

text \<open>
  Modelled from the spec: \<open>FilenameFormatter\<close> of \<open>bandcamper.utils\<close> is not among the
  sources. The specification describes a naming template as a string with the
  placeholders artist, album, year, track number, track title, source URL and file
  extension, rendered against the render context. A template is modelled as the list
  of its literal pieces and placeholders, and rendering as the concatenation of the
  literals and of the context's values; a placeholder without value in the context
  makes the rendering fail (\<open>KeyError\<close>).
\<close>

datatype piece = Literal string | Placeholder string

fun format_template :: "piece list \<Rightarrow> (string \<Rightarrow> string option) \<Rightarrow> string option" where
  "format_template [] context = Some []"
| "format_template (Literal text # pieces) context =
     map_option (\<lambda>rest. text @ rest) (format_template pieces context)"
| "format_template (Placeholder key # pieces) context =
     (case context key of
        None \<Rightarrow> None
      | Some v \<Rightarrow> map_option (\<lambda>rest. v @ rest) (format_template pieces context))"

subsection \<open>\<open>_sanitize_file_path\<close> and \<open>move_file\<close>\<close>

text \<open>
  The pattern of \<open>_sanitize_file_path\<close> is \<open>(.*/)(.*\.(mp3|flac|wav|m4a|aiff|ogg)$)\<close>,
  searched with \<open>re.IGNORECASE\<close>. A dot does not match a newline and \<open>$\<close> matches at
  the end of the string or before a newline that ends it, so a match lies in the last
  line of the string. It exists when that line has a slash and ends with a dot and one
  of the extensions; as the first group is greedy and an extension has no slash, group 1
  is the line up to its last slash and group 2 what follows it.
\<close>

definition last_line :: "string \<Rightarrow> string" where
  "last_line s =
     (let t = (if s \<noteq> [] \<and> last s = CHR 0x0A then butlast s else s)
      in rev (takeWhile (\<lambda>c. c \<noteq> CHR 0x0A) (rev t)))"

definition ends_with :: "string \<Rightarrow> string \<Rightarrow> bool" where
  "ends_with s e = (length e \<le> length s \<and> drop (length s - length e) s = e)"

definition ends_with_audio :: "string \<Rightarrow> bool" where
  "ends_with_audio s =
     list_ex (\<lambda>e. ends_with (lower s) (CHR ''.'' # e))
       [''mp3'', ''flac'', ''wav'', ''m4a'', ''aiff'', ''ogg'']"

definition sanitized_path :: "string \<Rightarrow> string" where
  \<comment> \<open>the string that \<open>_sanitize_file_path\<close> hands to \<open>sanitize_filepath\<close>\<close>
  "sanitized_path file_path_str =
     (let line = last_line file_path_str in
      if CHR ''/'' \<in> set line \<and> ends_with_audio line then
        (let group1 = rev (dropWhile (\<lambda>c. c \<noteq> CHR ''/'') (rev line));
             group2 = rev (takeWhile (\<lambda>c. c \<noteq> CHR ''/'') (rev line));
             directory_part = butlast group1;
             filename_part = group2;
             sanitized_filename = str_replace ''/'' ''-'' filename_part
         in if directory_part \<noteq> [] then directory_part @ ''/'' @ sanitized_filename
            else sanitized_filename)
      else str_replace ''/'' ''-'' file_path_str)"

text \<open>
  What \<open>move_file\<close> uses and is not among the sources or belongs to a library: the
  suffixes that \<open>suffix_to_metadata\<close> has as keys, \<open>get_track_output_context\<close>, and
  \<open>sanitize_filepath\<close> of \<open>pathvalidate\<close> for the platform of the host.
\<close>

record 't placer_env =
  suffix_to_metadata :: "string list"
  get_track_output_context :: "string \<Rightarrow> 't \<Rightarrow> (string \<Rightarrow> string option)"
  sanitize_filepath :: "string \<Rightarrow> string"

definition sanitize_file_path :: "'t placer_env \<Rightarrow> string \<Rightarrow> string" where
  "sanitize_file_path env file_path_str =
     posix_path (sanitize_filepath env (sanitized_path file_path_str))"

text \<open>
  \<open>move_file\<close> returns the path the file is moved to; \<open>None\<close> stands for the
  \<open>KeyError\<close> of the formatter. The render context is a dictionary of strings.
\<close>

definition move_file ::
  "'t placer_env \<Rightarrow> string \<Rightarrow> string \<Rightarrow> piece list \<Rightarrow> piece list \<Rightarrow> 't
     \<Rightarrow> (string \<Rightarrow> string option) \<Rightarrow> string option" where
  "move_file env file_path destination output output_extra tracks context =
     (let audio = (path_suffix file_path \<in> set (suffix_to_metadata env));
          output1 = (if audio then output else output_extra);
          context1 = (if audio then context ++ get_track_output_context env file_path tracks
                      else context(''filename'' \<mapsto> path_name file_path));
          sanitized_context = (\<lambda>key. map_option (str_replace ''/'' ''-'') (context1 key))
      in case format_template output1 sanitized_context of
           None \<Rightarrow> None
         | Some formatted_filename \<Rightarrow>
             Some (sanitize_file_path env (path_div destination formatted_filename)))"

text \<open>
  A host on which \<open>sanitize_filepath\<close> has nothing to change, the audio suffixes of
  the download formats, and a track context that gives number, title and extension of
  the one track \<open>01 AC/DC\<close>.
\<close>

definition example_placer :: "unit placer_env" where
  "example_placer =
     \<lparr>suffix_to_metadata = [''.mp3'', ''.flac'', ''.wav'', ''.m4a'', ''.aiff'', ''.ogg''],
      get_track_output_context =
        (\<lambda>file_path tracks. map_of [(''track_num'', ''01''), (''title'', ''AC/DC''),
                                    (''ext'', path_suffix file_path)]),
      sanitize_filepath = (\<lambda>p. p)\<rparr>"

definition example_context :: "string \<Rightarrow> string option" where
  "example_context =
     map_of [(''artist'', ''Artist''), (''album'', ''Album''), (''year'', ''2020''),
             (''bandcamp_url'', ''https://a.bandcamp.com/album/x'')]"

definition example_output :: "piece list" where
  \<comment> \<open>\<open>{artist}/{album}/{track_num} {title}{ext}\<close>\<close>
  "example_output =
     [Placeholder ''artist'', Literal ''/'', Placeholder ''album'', Literal ''/'',
      Placeholder ''track_num'', Literal '' '', Placeholder ''title'', Placeholder ''ext'']"

definition example_output_extra :: "piece list" where
  \<comment> \<open>\<open>{artist}/{album}/{filename}\<close>\<close>
  "example_output_extra =
     [Placeholder ''artist'', Literal ''/'', Placeholder ''album'', Literal ''/'',
      Placeholder ''filename'']"

section \<open>Properties of the URL Resolver\<close>

lemma subdomain_fullmatch_iff:
  "subdomain_fullmatch s \<longleftrightarrow>
     4 \<le> length s \<and> alnum_ic (hd s) \<and> alnum_ic (last s) \<and> list_all alnum_hyphen_ic s"
proof (cases s)
  case Nil
  then show ?thesis by simp
next
  case (Cons c cs)
  show ?thesis
  proof (cases "cs = []")
    case True
    with Cons show ?thesis by simp
  next
    case False
    then have "list_all alnum_hyphen_ic cs \<longleftrightarrow>
        list_all alnum_hyphen_ic (butlast cs @ [last cs])" by simp
    then have "list_all alnum_hyphen_ic cs \<longleftrightarrow>
        list_all alnum_hyphen_ic (butlast cs) \<and> alnum_hyphen_ic (last cs)"
      by simp
    with Cons False show ?thesis
      by (auto simp: alnum_hyphen_ic_def)
  qed
qed

lemma add_urls_from_artist_requested:
  "requested (snd (add_urls_from_artist env url st)) = requested st @ [url]"
  by (simp add: add_urls_from_artist_def Let_def split: sum.splits option.splits)

lemma add_urls_from_artist_error:
  "fst (add_urls_from_artist env url st) \<noteq> Some IndexError"
  by (simp add: add_urls_from_artist_def Let_def split: sum.splits option.splits)

lemma add_url_subdomain_returns:
  "subdomain_fullmatch name \<Longrightarrow> fst (add_url env name st) = None"
  using add_urls_from_artist_error [of env "''https://'' @ lower name @ ''.bandcamp.com/music''" st]
  by (auto simp add: add_url_def Let_def split: prod.splits option.splits error.splits)

text \<open>
  C9. An identifier that fullmatches the subdomain grammar makes \<open>add_url\<close> fetch exactly
  one page, and its URL is \<open>https://\<close>, the lowercased identifier, \<open>.bandcamp.com/music\<close>.
\<close>

theorem C9_subdomain_base_url:
  "subdomain_fullmatch name \<Longrightarrow>
     requested (snd (add_url env name st))
       = requested st @ [''https://'' @ lower name @ ''.bandcamp.com/music'']"
proof -
  assume m: "subdomain_fullmatch name"
  let ?url = "''https://'' @ lower name @ ''.bandcamp.com/music''"
  have r: "requested (snd (add_urls_from_artist env ?url st)) = requested st @ [?url]"
    by (rule add_urls_from_artist_requested)
  obtain e st1 where a: "add_urls_from_artist env ?url st = (e, st1)"
    by (cases "add_urls_from_artist env ?url st")
  with r have "requested st1 = requested st @ [?url]" by simp
  with m a show ?thesis
    by (auto simp add: add_url_def Let_def scream_error_def split: option.splits error.splits)
qed

theorem C9_examplelabel_witness:
  "subdomain_fullmatch ''examplelabel''
   \<and> requested (snd (add_url (failing_env 404) ''examplelabel'' (new_bandcamper True True)))
       = [''https://examplelabel.bandcamp.com/music'']"
proof -
  have m: "subdomain_fullmatch ''examplelabel''"
    by (simp add: alnum_ic_def alnum_hyphen_ic_def is_lower_def is_upper_def is_digit_def)
  have l: "lower ''examplelabel'' = ''examplelabel''"
    by (simp add: lower_def lower_char_def)
  show ?thesis
    using m C9_subdomain_base_url [OF m, of "failing_env 404" "new_bandcamper True True"]
    by (simp add: l new_bandcamper_def)
qed

text \<open>
  C6. The identifier \<open>https://examplelabel.bandcamp.com/music\<close> is a URL whose path is
  \<open>/music\<close>, so it is an artist root. When the fetch answers 404, \<open>add_url\<close> prints
  nothing and lets the \<open>HTTPError\<close> escape, and the loop over the identifiers stops:
  the identifier after it, \<open>otherlabel\<close>, is never fetched.
\<close>

theorem C6_url_artist_root_404_escapes:
  "add_all (failing_env 404) [''https://examplelabel.bandcamp.com/music'', ''otherlabel'']
     (new_bandcamper True True)
   = (Some (HTTPError 404),
      \<lparr>urls = {}, fallback = True, force_https = True, screamed = [],
       requested = [''https://examplelabel.bandcamp.com/music'']\<rparr>)"
  by (simp add: add_url_def add_urls_from_artist_def failing_env_def example_urlparse_def
      new_bandcamper_def url_fullmatch_def host_tail_fullmatch_def lower_def lower_char_def
      alnum_ic_def alnum_hyphen_ic_def is_lower_def is_upper_def is_digit_def strip_chars_def
      Let_def)

text \<open>
  The bare-subdomain path does what the URL path misses: there a 404 is printed as
  \<open>not found\<close>, any other status as a request error, and \<open>add_url\<close> returns.
\<close>

lemma add_url_subdomain_http_error:
  assumes "subdomain_fullmatch name"
    and "get_request_or_error env (''https://'' @ lower name @ ''.bandcamp.com/music'') = Inl code"
  shows "fst (add_url env name st) = None"
    and "screamed (snd (add_url env name st)) = screamed st @
           [Error (if code = 404 then name @ '' not found''
                   else ''Request error while getting URLs for '' @ name)]"
    and "urls (snd (add_url env name st)) = urls st"
  using assms
  by (simp_all add: add_url_def add_urls_from_artist_def Let_def scream_error_def)

lemma add_all_subdomains_continue:
  "list_all subdomain_fullmatch names \<Longrightarrow> fst (add_all env names st) = None"
proof (induction names arbitrary: st)
  case Nil
  then show ?case by simp
next
  case (Cons n ns)
  obtain e st1 where a: "add_url env n st = (e, st1)" by (cases "add_url env n st")
  from Cons.prems have "subdomain_fullmatch n" by simp
  then have "fst (add_url env n st) = None" by (rule add_url_subdomain_returns)
  with a have "e = None" by simp
  with a Cons show ?case by simp
qed

section \<open>Properties of the email request\<close>

lemma rounds_Suc: "rounds (Suc n) = Sleep 1 # Check_mailbox # rounds n"
  by (simp add: rounds_def)

lemma empty_until_0: "empty_until g t 0"
  by (simp add: empty_until_def)

lemma upt_1_Suc_Suc: "[1..<Suc (Suc n)] = 1 # map Suc [1..<Suc n]"
proof -
  have "[1..<Suc (Suc n)] = 1 # [Suc 1..<Suc (Suc n)]"
    by (rule upt_conv_Cons) simp
  also have "[Suc 1..<Suc (Suc n)] = map Suc [1..<Suc n]"
    by (rule map_Suc_upt [symmetric])
  finally show ?thesis .
qed

lemma empty_until_Suc:
  "empty_until g t (Suc n) \<longleftrightarrow> g (t + 1) = [] \<and> empty_until g (t + 1) n"
proof -
  have shift: "\<And>k. t + int (Suc k) = t + 1 + int k" by simp
  show ?thesis
    unfolding empty_until_def upt_1_Suc_Suc
    by (simp only: list.pred_inject list.pred_map o_def shift) simp
qed


lemma poll_outcome_step:
  assumes "poll_outcome g timeout (t + 1) n r" and "g (t + 1) = []" and "\<not> t > timeout"
  shows "poll_outcome g timeout t (Suc n) r"
proof (cases r)
  case (Inl e)
  from assms(1) have "poll_outcome g timeout (t + 1) n (Inl e)" unfolding Inl .
  then have n: "e = email_not_received" "int n = max 0 (timeout + 1 - (t + 1))" "empty_until g (t + 1) n"
    by (simp_all add: poll_outcome_def)
  have "int (Suc n) = max 0 (timeout + 1 - t)" using n(2) assms(3) by simp
  moreover have "empty_until g t (Suc n)" using n(3) assms(2) by (simp only: empty_until_Suc)
  ultimately show ?thesis
    unfolding poll_outcome_def Inl using n(1) by simp
next
  case (Inr msgs)
  from assms(1) have "poll_outcome g timeout (t + 1) n (Inr msgs)" unfolding Inr .
  then have n: "0 < n" "g (t + 1 + int n) = msgs" "g (t + 1 + int n) \<noteq> []" "empty_until g (t + 1) (n - 1)"
    by (auto simp add: poll_outcome_def)
  from n(1) obtain m where m: "n = Suc m" by (cases n) auto
  have idx: "t + int (Suc n) = t + 1 + int n" by simp
  have e: "empty_until g t (Suc m)"
    using n(4) assms(2) unfolding m by (simp only: empty_until_Suc diff_Suc_1)
  have "Suc n - 1 = Suc m" using m by simp
  with e n(2,3) show ?thesis
    unfolding poll_outcome_def Inr idx by simp
qed

lemma poll_mailbox_spec:
  "\<exists>n. int n \<le> max 0 (timeout + 1 - t)
     \<and> snd (poll_mailbox g timeout t) = rounds n
     \<and> poll_outcome g timeout t n (fst (poll_mailbox g timeout t))"
proof (induction g timeout t rule: poll_mailbox.induct)
  case (1 g timeout t)
  show ?case
  proof (cases "t > timeout")
    case True
    then have "poll_mailbox g timeout t = (Inl email_not_received, [])"
      by (simp add: poll_mailbox.simps[of g timeout t])
    with True show ?thesis
      by (intro exI[of _ 0]) (simp add: rounds_def empty_until_0 poll_outcome_def)
  next
    case False
    show ?thesis
    proof (cases "g (t + 1) = []")
      case nonempty: False
      with False have "poll_mailbox g timeout t = (Inr (g (t + 1)), [Sleep 1, Check_mailbox])"
        by (simp add: poll_mailbox.simps[of g timeout t] Let_def)
      with False nonempty show ?thesis
        by (intro exI[of _ 1]) (simp add: rounds_def empty_until_0 poll_outcome_def)
    next
      case True
      then have "\<not> g (t + 1) \<noteq> []" by simp
      from "1.IH"[OF False refl refl this]
      obtain n where n: "int n \<le> max 0 (timeout + 1 - (t + 1))"
        "snd (poll_mailbox g timeout (t + 1)) = rounds n"
        "poll_outcome g timeout (t + 1) n (fst (poll_mailbox g timeout (t + 1)))"
        by blast
      obtain r evs where p: "poll_mailbox g timeout (t + 1) = (r, evs)"
        by (cases "poll_mailbox g timeout (t + 1)")
      have res: "poll_mailbox g timeout t = (r, Sleep 1 # Check_mailbox # evs)"
        using False True p by (simp add: poll_mailbox.simps[of g timeout t] Let_def)
      have a: "int (Suc n) \<le> max 0 (timeout + 1 - t)" using n(1) False by simp
      have b: "snd (poll_mailbox g timeout t) = rounds (Suc n)"
        using res n(2) p by (simp add: rounds_Suc)
      have "poll_outcome g timeout (t + 1) n r" using n(3) p by simp
      then have "poll_outcome g timeout t (Suc n) r" using True False by (rule poll_outcome_step)
      then have c: "poll_outcome g timeout t (Suc n) (fst (poll_mailbox g timeout t))"
        using res by simp
      from a b c show ?thesis by blast
    qed
  qed
qed


text \<open>
  C8. Once the form POST is accepted, the request always returns: it has done \<open>n\<close>
  rounds of sleeping one unit and checking the mailbox, with \<open>n\<close> at most
  \<open>timeout + 1\<close> (none when that is negative). It ends either with the
  \<open>ValueError\<close> "email not received", after exactly that many rounds on an empty
  mailbox, or with the link of the first message of the first non-empty answer.
\<close>

theorem C8_email_poll_bounded:
  "\<exists>n. int n \<le> max 0 (timeout + 1)
     \<and> snd (get_download_url_from_email (env\<lparr>post_ok := True\<rparr>) timeout) = rounds n
     \<and> (case fst (get_download_url_from_email (env\<lparr>post_ok := True\<rparr>) timeout) of
          Inl e \<Rightarrow> e = email_not_received \<and> int n = max 0 (timeout + 1)
                     \<and> empty_until (get_messages env) 0 n
        | Inr url \<Rightarrow> 0 < n \<and> get_messages env (int n) \<noteq> []
                     \<and> url = first_href env (hd (get_messages env (int n)))
                     \<and> empty_until (get_messages env) 0 (n - 1))"
proof -
  let ?g = "get_messages env"
  from poll_mailbox_spec [of timeout 0 ?g]
  obtain n where n: "int n \<le> max 0 (timeout + 1)"
    "snd (poll_mailbox ?g timeout 0) = rounds n"
    "poll_outcome ?g timeout 0 n (fst (poll_mailbox ?g timeout 0))"
    by auto
  obtain r evs where p: "poll_mailbox ?g timeout 0 = (r, evs)"
    by (cases "poll_mailbox ?g timeout 0")
  show ?thesis
  proof (cases r)
    case (Inl e)
    with p have g: "get_download_url_from_email (env\<lparr>post_ok := True\<rparr>) timeout = (Inl e, evs)"
      by (simp add: get_download_url_from_email_def)
    from n(3) p Inl have "e = email_not_received" "int n = max 0 (timeout + 1)" "empty_until ?g 0 n"
      by (auto simp add: poll_outcome_def)
    with n(1,2) p g show ?thesis
      by (intro exI[of _ n]) simp
  next
    case (Inr msgs)
    with p have g: "get_download_url_from_email (env\<lparr>post_ok := True\<rparr>) timeout
        = (Inr (first_href env (hd msgs)), evs)"
      by (simp add: get_download_url_from_email_def)
    from n(3) p Inr have "0 < n" "?g (int n) = msgs" "?g (int n) \<noteq> []" "empty_until ?g 0 (n - 1)"
      by (auto simp add: poll_outcome_def)
    with n(1,2) p g show ?thesis
      by (intro exI[of _ n]) simp
  qed
qed

text \<open>With a timeout of 2 and a mailbox that stays empty the loop does three rounds.\<close>

lemma poll_mailbox_timeout_2:
  "poll_mailbox (\<lambda>t. []) 2 0 = (Inl email_not_received, rounds 3)"
  by (simp add: poll_mailbox.simps [of _ 2] rounds_def numeral_3_eq_3)

text \<open>A message that is there at the second check is returned after two rounds.\<close>

lemma poll_mailbox_second_check:
  "poll_mailbox (\<lambda>t. if t < 2 then [] else [''m'']) 60 0 = (Inr [''m''], rounds 2)"
  by (simp add: poll_mailbox.simps [of _ 60] rounds_def numeral_2_eq_2)

section \<open>Properties of the Download Strategy Engine\<close>

lemma str_nat_digit: "n < 10 \<Longrightarrow> str_nat n = [''0123456789'' ! n]"
  by (simp add: str_nat.simps)

text \<open>
  C3. The fallback procedure on an album (no release-level title) whose first track has
  no number and whose third track has no preview. The track without preview is skipped
  without a message. The track without number gets the field \<open>1\<close>, not \<open>01\<close>, and
  the second track is named after the title of the first, \<open>Intro\<close>, not after its own
  title \<open>Second\<close>.
\<close>

theorem C3_fallback_names:
  "fallback_requests example_tracks ''Artist'' ''Album'' None ''music''
   = [\<lparr>req_url = ''https://t4.bcbits.com/stream/1'', req_destination = ''music'',
       req_template = ''Artist - Album - 1 Intro{ext}'', req_label = Some ''1.mp3''\<rparr>,
      \<lparr>req_url = ''https://t4.bcbits.com/stream/2'', req_destination = ''music'',
       req_template = ''Artist - Album - 02 Intro{ext}'', req_label = Some ''02.mp3''\<rparr>]"
  by (simp add: example_tracks_def format_02d_def str_nat_digit)

text \<open>The previews requested are those of the tracks that have one, in order.\<close>

lemma fallback_requests_urls:
  "map req_url (fallback_requests tracks artist album title destination)
   = List.map_filter info_file tracks"
  by (induction tracks arbitrary: title)
     (simp_all add: List.map_filter_simps Let_def split: option.splits)

lemma free_download_formats_spec:
  "list_all (stat_answers env downloadable) fmts \<Longrightarrow>
   free_download_formats env downloadable destination item_type fmts
   = (Inr (collected (map (spec_format_outcome env downloadable destination item_type) fmts)),
      skipped (map (spec_format_outcome env downloadable destination item_type) fmts))"
proof (induction fmts)
  case Nil
  show ?case by simp
next
  case (Cons fmt fmts)
  then have a: "stat_answers env downloadable fmt" and r: "list_all (stat_answers env downloadable) fmts"
    by simp_all
  note IH = Cons.IH [OF r]
  show ?case
  proof (cases "downloadable fmt")
    case None
    with IH show ?thesis by (simp add: spec_format_outcome_def)
  next
    case (Some d)
    with a obtain reply where s: "stat_download env (fwd_url_of env d) = Inr reply"
      by (auto simp add: stat_answers_def split: sum.splits)
    show ?thesis
      using Some s IH
      by (simp add: spec_format_outcome_def spec_url_used_def Let_def)
  qed
qed


text \<open>
  C7. When the download page is fetched and every stat request is answered, the
  Free-Download procedure treats each requested format on its own, as the
  specification describes it: it returns the artifacts of the formats whose result code
  is \<open>ok\<close> (from the direct URL) or \<open>err\<close> (from the retry URL), in the order of the
  request, and prints one error for every other format, "download not found" for a
  format absent from the mapping and "Error downloading" for any other result code.
\<close>

theorem C7_free_download_per_format:
  assumes "download_page env url = Inr downloadable"
    and "list_all (stat_answers env downloadable) download_formats"
  shows "free_download env url destination item_type download_formats
   = (Inr (collected (map (spec_format_outcome env downloadable destination item_type)
                          download_formats)),
      skipped (map (spec_format_outcome env downloadable destination item_type)
                   download_formats))"
  using assms by (simp add: free_download_def free_download_formats_spec)

lemma example_engine_sel:
  "release_page (example_engine r) u = Inr r"
  "download_page (example_engine r) u = Inr example_downloads"
  "stat_download (example_engine r) = example_stat"
  "email (example_engine r) =
     \<lparr>post_ok = True, post_text = [], get_messages = (\<lambda>t. if t < 2 then [] else [()]),
      first_href = (\<lambda>m. ''https://bandcamp.com/download?id=1'')\<rparr>"
  by (simp_all add: example_engine_def)

lemma example_fwd_urls:
  "fwd_url_of (example_engine r) ''https://p4.bcbits.com/download/album/flac''
     = ''https://p4.bcbits.com/statdownload/album/flac''"
  "fwd_url_of (example_engine r) ''https://p4.bcbits.com/download/album/mp3-320''
     = ''https://p4.bcbits.com/statdownload/album/mp3-320''"
  "fwd_url_of (example_engine r) ''https://p4.bcbits.com/download/album/wav''
     = ''https://p4.bcbits.com/statdownload/album/wav''"
  by (simp_all add: fwd_url_of_def example_engine_def example_url_parse_def Let_def)

lemma example_lower: "lower ''ok'' = ''ok''" "lower ''err'' = ''err''" "lower ''pending'' = ''pending''"
  by (simp_all add: lower_def lower_char_def)

lemma example_stat_answers:
  "list_all (stat_answers (example_engine r) example_downloads) [''flac'', ''mp3-320'', ''wav'', ''vorbis'']"
  by (simp add: stat_answers_def example_downloads_def example_fwd_urls example_engine_sel
      example_stat_def)

lemma example_artifacts:
  "fetch_artifact (example_engine r) u ''music'' ''album'' ''flac'' = ''music/flac''"
  "fetch_artifact (example_engine r) u ''music'' ''album'' ''mp3-320'' = ''music/mp3-320''"
  by (simp_all add: fetch_artifact_def example_engine_def path_suffix_def path_name_def
      without_suffix_def Let_def)

theorem C7_free_download_witness:
  "download_page (example_engine (example_release None False)) ''page'' = Inr example_downloads
   \<and> list_all (stat_answers (example_engine (example_release None False)) example_downloads)
        [''flac'', ''mp3-320'', ''wav'', ''vorbis'']
   \<and> free_download (example_engine (example_release None False)) ''page'' ''music'' ''album''
        [''flac'', ''mp3-320'', ''wav'', ''vorbis'']
      = (Inr [''music/flac'', ''music/mp3-320''],
         [Error ''Error downloading wav from https://p4.bcbits.com/statdownload/album/wav'',
          Error ''vorbis download not found''])"
proof -
  have p: "download_page (example_engine (example_release None False)) ''page'' = Inr example_downloads"
    by (rule example_engine_sel)
  note a = example_stat_answers [of "example_release None False"]
  have o: "map (spec_format_outcome (example_engine (example_release None False)) example_downloads ''music'' ''album'')
             [''flac'', ''mp3-320'', ''wav'', ''vorbis'']
           = [Collected ''music/flac'', Collected ''music/mp3-320'',
              Skipped (Error ''Error downloading wav from https://p4.bcbits.com/statdownload/album/wav''),
              Skipped (Error ''vorbis download not found'')]"
    by (simp add: spec_format_outcome_def example_downloads_def example_fwd_urls
        example_engine_sel example_stat_def spec_url_used_def example_lower example_artifacts)
  show ?thesis
    using p a C7_free_download_per_format [OF p a, of "''music''" "''album''"]
    by (simp only: o collected.simps skipped.simps simp_thms)
qed


lemma example_release_year: "release_year (example_release p g) = Inr ''2020''"
  by (simp add: release_year_def example_release_def split_ws_def is_space_def Let_def)

lemma example_release_sel:
  "data_freeDownloadPage (example_release p g) = p"
  "data_require_email (example_release p g) = g"
  "data_item_type (example_release p g) = ''album''"
  "data_artist (example_release p g) = ''Artist''"
  "data_current_title (example_release p g) = ''Album''"
  "data_trackinfo (example_release p g) = example_tracks"
  by (simp_all add: example_release_def)

lemma example_no_strategy:
  "download_from_url (example_engine (example_release None False)) (new_bandcamper False True)
     url ''music'' [''flac'']
   = (Returned, [Info (''Searching available downloads for URL '' @ url)])"
  by (simp add: download_from_url_def get_music_data_def example_engine_sel
      example_release_year example_release_sel truthy_def new_bandcamper_def Let_def)

text \<open>
  C2. Two releases without free-download page and without email gating, fallback
  switched off, \<open>flac\<close> requested. For each of them \<open>download_from_url\<close> returns with
  no file and with nothing printed but the line that announces the search: no error
  "no free download" is raised or printed. The batch goes on to the second release.
\<close>

theorem C2_no_strategy_returns_silently:
  "download_all (example_engine (example_release None False)) (new_bandcamper False True)
     [''https://a.bandcamp.com/album/x'', ''https://a.bandcamp.com/album/y''] ''music'' [''flac'']
   = (None,
      [(Returned, [Info ''Searching available downloads for URL https://a.bandcamp.com/album/x'']),
       (Returned, [Info ''Searching available downloads for URL https://a.bandcamp.com/album/y''])])"
  by (simp add: example_no_strategy)

lemma free_download_error:
  "fst (free_download env url destination item_type fmts) = Inl e \<Longrightarrow> \<exists>code. e = HTTPError code"
proof -
  have "fst (free_download_formats env d destination item_type fmts) = Inl e
        \<Longrightarrow> \<exists>code. e = HTTPError code" for d
    by (induction fmts) (auto simp add: Let_def split: option.splits sum.splits prod.splits if_splits)
  then show "fst (free_download env url destination item_type fmts) = Inl e \<Longrightarrow> \<exists>code. e = HTTPError code"
    by (auto simp add: free_download_def split: sum.splits)
qed

lemma poll_mailbox_error:
  "fst (poll_mailbox g timeout t) = Inl e \<Longrightarrow> e = email_not_received"
  using poll_mailbox_spec [of timeout t g] by (auto simp add: poll_outcome_def)

lemma get_download_url_from_email_error:
  "fst (get_download_url_from_email env timeout) = Inl e \<Longrightarrow>
     e = email_not_received \<or> e = ValueError (''Email download request failed: '' @ post_text env)"
  using poll_mailbox_error [of "get_messages env" timeout 0]
  by (auto simp add: get_download_url_from_email_def split: if_splits prod.splits sum.splits)

lemma release_year_error: "release_year md = Inl e \<Longrightarrow> e = IndexError"
  by (simp add: release_year_def Let_def split: if_splits)

lemma get_music_data_error:
  "get_music_data env url = Inl e \<Longrightarrow> (\<exists>m. e = ValueError m) \<or> (\<exists>c. e = HTTPError c)"
  by (auto simp add: get_music_data_def split: sum.splits if_splits)

lemma download_from_url_raised:
  assumes a: "fst (download_from_url env self url destination formats) = Raised e"
  shows "(\<exists>c. e = HTTPError c) \<or> e = IndexError \<or> e = email_not_received
         \<or> e = ValueError (''Email download request failed: '' @ post_text (email env))"
proof (cases "get_music_data env url")
  case (Inl e')
  from get_music_data_error [OF Inl] a Inl show ?thesis
    by (auto simp add: download_from_url_def Let_def)
next
  case md: (Inr md)
  show ?thesis
  proof (cases "release_year md")
    case (Inl e')
    with release_year_error [OF Inl] a md show ?thesis
      by (simp add: download_from_url_def Let_def)
  next
    case yr: (Inr year)
    show ?thesis
    proof (cases "truthy (data_freeDownloadPage md)")
      case True
      obtain r ss where f: "free_download env (the (data_freeDownloadPage md)) destination
          (data_item_type md) (removeAll ''mp3-128'' (remdups formats)) = (r, ss)"
        by (cases "free_download env (the (data_freeDownloadPage md)) destination
          (data_item_type md) (removeAll ''mp3-128'' (remdups formats))")
      show ?thesis
      proof (cases r)
        case (Inl e')
        with f have "fst (free_download env (the (data_freeDownloadPage md)) destination
          (data_item_type md) (removeAll ''mp3-128'' (remdups formats))) = Inl e'" by simp
        from free_download_error [OF this] a md yr True f Inl show ?thesis
          by (auto simp add: download_from_url_def Let_def)
      next
        case (Inr paths)
        with a md yr True f show ?thesis
          by (simp add: download_from_url_def Let_def)
      qed
    next
      case nofree: False
      show ?thesis
      proof (cases "data_require_email md")
        case True
        show ?thesis
        proof (cases "fst (get_download_url_from_email (email env) 60)")
          case (Inl e')
          from get_download_url_from_email_error [OF Inl] a md yr nofree True Inl show ?thesis
            by (auto simp add: download_from_url_def Let_def)
        next
          case u: (Inr download_url)
          obtain r ss where f: "free_download env download_url destination
              (data_item_type md) (removeAll ''mp3-128'' (remdups formats)) = (r, ss)"
            by (cases "free_download env download_url destination
              (data_item_type md) (removeAll ''mp3-128'' (remdups formats))")
          show ?thesis
          proof (cases r)
            case (Inl e')
            with f have "fst (free_download env download_url destination
              (data_item_type md) (removeAll ''mp3-128'' (remdups formats))) = Inl e'" by simp
            from free_download_error [OF this] a md yr nofree True u f Inl show ?thesis
              by (auto simp add: download_from_url_def Let_def)
          next
            case (Inr paths)
            with a md yr nofree True u f show ?thesis
              by (simp add: download_from_url_def Let_def)
          qed
        qed
      next
        case False
        with a md yr nofree show ?thesis
          by (simp add: download_from_url_def Let_def split: if_splits)
      qed
    qed
  qed
qed

text \<open>
  The \<open>ValueError\<close> "No free download found" of the last branch is never raised: the
  branch before it returns whenever fallback is off, and the branch before that takes
  every release when fallback is on.
\<close>

lemma download_from_url_never_no_free_download:
  "fst (download_from_url env self url destination formats)
   \<noteq> Raised (ValueError (''No free download found for '' @ url @ ''. Try setting fallback to True.''))"
proof
  assume "fst (download_from_url env self url destination formats)
   = Raised (ValueError (''No free download found for '' @ url @ ''. Try setting fallback to True.''))"
  from download_from_url_raised [OF this] show False
    by (simp add: email_not_received_def)
qed


text \<open>
  C10. When \<open>mp3-128\<close> is among the requested formats and an official strategy runs
  (the release has a free-download page, or it is email-gated and the email brings the
  page; the release data is read and the Free-Download procedure completes), the
  Free-Download procedure is called with the requested formats without \<open>mp3-128\<close>,
  and the files of \<open>download_from_url\<close> are its files followed by the preview
  downloads of the fallback downloader, one for each track that has a preview URL.
  Nothing is assumed about the object, so this holds whether or not fallback is enabled.
\<close>

theorem C10_mp3_128_through_fallback:
  assumes mp3: "''mp3-128'' \<in> set formats"
    and page: "release_page env url = Inr md"
    and year: "release_year md = Inr year"
    and official:
      "if truthy (data_freeDownloadPage md) then data_freeDownloadPage md = Some download_page_url
       else data_require_email md
            \<and> fst (get_download_url_from_email (email env) 60) = Inr download_page_url"
    and free: "fst (free_download env download_page_url destination (data_item_type md)
                      (removeAll ''mp3-128'' (remdups formats))) = Inr official_paths"
  shows "fst (download_from_url env self url destination formats)
         = File_paths (official_paths
             @ map (download_to_file env)
                 (fallback_requests (data_trackinfo md) (data_artist md)
                    (if data_item_type md = ''album'' then data_current_title md
                     else (case data_album_title md of Some a \<Rightarrow> a | None \<Rightarrow> []))
                    (if data_item_type md = ''album'' then None
                     else Some (data_current_title md))
                    destination))
         \<and> map req_url
               (fallback_requests (data_trackinfo md) (data_artist md)
                    (if data_item_type md = ''album'' then data_current_title md
                     else (case data_album_title md of Some a \<Rightarrow> a | None \<Rightarrow> []))
                    (if data_item_type md = ''album'' then None
                     else Some (data_current_title md))
                    destination)
             = List.map_filter info_file (data_trackinfo md)
         \<and> ''mp3-128'' \<notin> set (removeAll ''mp3-128'' (remdups formats))"
proof -
  have g: "get_music_data env url = Inr md"
    using page by (simp add: get_music_data_def)
  obtain r ss where f: "free_download env download_page_url destination (data_item_type md)
                      (removeAll ''mp3-128'' (remdups formats)) = (r, ss)"
    by (cases "free_download env download_page_url destination (data_item_type md)
                      (removeAll ''mp3-128'' (remdups formats))")
  with free have r: "r = Inr official_paths" by simp
  have "fst (download_from_url env self url destination formats)
         = File_paths (official_paths
             @ download_fallback_mp3 env (data_trackinfo md) (data_artist md)
                    (if data_item_type md = ''album'' then data_current_title md
                     else (case data_album_title md of Some a \<Rightarrow> a | None \<Rightarrow> []))
                    (if data_item_type md = ''album'' then None
                     else Some (data_current_title md))
                    destination)"
  proof (cases "truthy (data_freeDownloadPage md)")
    case True
    with official have "the (data_freeDownloadPage md) = download_page_url" by simp
    with True g year f r mp3 show ?thesis
      by (simp add: download_from_url_def Let_def)
  next
    case False
    with official have "data_require_email md"
      "fst (get_download_url_from_email (email env) 60) = Inr download_page_url" by simp_all
    with False g year f r mp3 show ?thesis
      by (simp add: download_from_url_def Let_def)
  qed
  then show ?thesis
    by (simp add: download_fallback_mp3_def fallback_requests_urls)
qed

theorem C10_mp3_128_witness:
  "''mp3-128'' \<in> set [''flac'', ''mp3-128'']
   \<and> fallback (new_bandcamper False True) = False
   \<and> fst (download_from_url
           (example_engine (example_release (Some ''https://bandcamp.com/download?id=1'') False))
           (new_bandcamper False True) ''https://a.bandcamp.com/album/x'' ''music''
           [''flac'', ''mp3-128''])
      = File_paths [''music/flac'', ''music/1.mp3'', ''music/02.mp3'']"
proof -
  let ?md = "example_release (Some ''https://bandcamp.com/download?id=1'') False"
  let ?env = "example_engine ?md"
  have mp3: "''mp3-128'' \<in> set [''flac'', ''mp3-128'']" by simp
  have page: "release_page ?env ''https://a.bandcamp.com/album/x'' = Inr ?md"
    by (rule example_engine_sel)
  have year: "release_year ?md = Inr ''2020''" by (rule example_release_year)
  have official:
    "if truthy (data_freeDownloadPage ?md)
     then data_freeDownloadPage ?md = Some ''https://bandcamp.com/download?id=1''
     else data_require_email ?md
          \<and> fst (get_download_url_from_email (email ?env) 60)
              = Inr ''https://bandcamp.com/download?id=1''"
    by (simp add: example_release_sel truthy_def)
  have fl: "list_all (stat_answers ?env example_downloads) [''flac'']"
    by (simp add: stat_answers_def example_downloads_def example_fwd_urls example_engine_sel
      example_stat_def)
  have free: "fst (free_download ?env ''https://bandcamp.com/download?id=1'' ''music''
                    (data_item_type ?md) (removeAll ''mp3-128'' (remdups [''flac'', ''mp3-128''])))
              = Inr [''music/flac'']"
    using fl
    by (simp add: free_download_def example_engine_sel free_download_formats_spec
        spec_format_outcome_def example_downloads_def example_fwd_urls example_stat_def
        spec_url_used_def example_lower example_artifacts example_release_sel)
  have dl: "download_to_file ?env r
            = req_destination r @ ''/'' @ (case req_label r of Some l \<Rightarrow> l | None \<Rightarrow> req_template r)" for r
    by (simp add: example_engine_def)
  show ?thesis
    using C10_mp3_128_through_fallback [OF mp3 page year official free, of "new_bandcamper False True"]
    by (simp add: example_release_sel example_tracks_def format_02d_def str_nat_digit dl
        new_bandcamper_def)
qed


section \<open>Properties of the Track Matcher\<close>

lemma fuzzy_match_spec: "fuzzy_match a b = spec_fuzzy a b"
  by (auto simp add: fuzzy_match_def spec_fuzzy_def overlap_ratio_def Let_def)

lemma step_single_eq: "step_single tracks = (if length tracks = 1 then Some (hd tracks) else None)"
  by (cases tracks) (auto simp add: step_single_def split: list.splits)

lemma first_of_3:
  "first_of [a, b, c] = (case a of Some x \<Rightarrow> Some x | None \<Rightarrow>
      (case b of Some y \<Rightarrow> Some y | None \<Rightarrow> c))"
  by (cases a; cases b; cases c) simp_all

lemma find_matching_track_titled:
  "find_matching_track file_path tracks = titled_find_matching_track file_path tracks"
proof (cases "tracks = []")
  case True
  then show ?thesis
    by (simp add: find_matching_track_def titled_find_matching_track_def step_number_def
        step_single_def Let_def split: option.splits)
next
  case False
  then show ?thesis
    by (simp add: find_matching_track_def titled_find_matching_track_def step_number_def
        step_single_eq first_of_3 fuzzy_match_spec title_of_def Let_def
        split: option.splits)
qed

lemma int_of_digits_07: "int_of_digits ''07'' = 7"
  by code_simp

lemma find_matching_track_by_number:
  assumes "first_digits (lower (path_stem file_path)) = Some digits"
    and "find (\<lambda>track. meta_number track = Some (int_of_digits digits)) tracks = Some track"
  shows "find_matching_track file_path tracks = Some track"
proof -
  from assms(2) have "tracks \<noteq> []" by auto
  with assms show ?thesis
    by (simp add: find_matching_track_def Let_def)
qed

text \<open>
  C5, as the code has it. The matcher is the first success of three steps: the first
  track whose number is the first run of digits of the lowercased base name; the first
  track with a non-empty title that matches the base name fuzzily (one normalized
  string contains the other, or the word-set overlap ratio is at least 0.6); the only
  track of a one-track list. Otherwise there is no match. In particular a file whose
  first run of digits is \<open>07\<close> is matched to the first track numbered 7, whatever the
  titles are.
\<close>

theorem C5_track_matcher_steps:
  "find_matching_track file_path tracks = titled_find_matching_track file_path tracks
   \<and> (first_digits (lower (path_stem file_path)) = Some ''07''
        \<and> find (\<lambda>track. meta_number track = Some 7) tracks = Some track
      \<longrightarrow> find_matching_track file_path tracks = Some track)"
  using find_matching_track_by_number [of file_path "''07''" tracks track]
  by (simp add: find_matching_track_titled int_of_digits_07)

theorem C5_track_matcher_witness:
  "first_digits (lower (path_stem ''music/07 song.mp3'')) = Some ''07''
   \<and> find (\<lambda>track. meta_number track = Some 7)
        [\<lparr>meta_number = Some 7, meta_title = Some ''Alpha'', meta_duration = None\<rparr>,
         \<lparr>meta_number = Some 8, meta_title = Some ''Song'', meta_duration = None\<rparr>]
      = Some \<lparr>meta_number = Some 7, meta_title = Some ''Alpha'', meta_duration = None\<rparr>
   \<and> fuzzy_match ''07 song'' ''song''
   \<and> find_matching_track ''music/07 song.mp3''
        [\<lparr>meta_number = Some 7, meta_title = Some ''Alpha'', meta_duration = None\<rparr>,
         \<lparr>meta_number = Some 8, meta_title = Some ''Song'', meta_duration = None\<rparr>]
      = Some \<lparr>meta_number = Some 7, meta_title = Some ''Alpha'', meta_duration = None\<rparr>"
proof -
  let ?t7 = "\<lparr>meta_number = Some 7, meta_title = Some ''Alpha'', meta_duration = None\<rparr>"
  let ?t8 = "\<lparr>meta_number = Some 8, meta_title = Some ''Song'', meta_duration = None\<rparr>"
  have d: "first_digits (lower (path_stem ''music/07 song.mp3'')) = Some ''07''"
    by code_simp
  have f: "find (\<lambda>track. meta_number track = Some 7) [?t7, ?t8] = Some ?t7"
    by simp
  have z: "fuzzy_match ''07 song'' ''song''"
    by code_simp
  from C5_track_matcher_steps [of "''music/07 song.mp3''" "[?t7, ?t8]" ?t7] d f
  have "find_matching_track ''music/07 song.mp3'' [?t7, ?t8] = Some ?t7"
    by blast
  with d f z show ?thesis by blast
qed

text \<open>
  C5 as the specification states it fails twice. A track with an empty title is
  contained in every base name, so by the stated rule it would win step 2; the code
  passes over it and returns the second track. And a file that contains \<open>07\<close> after an
  earlier run of digits is not matched to the track numbered 7.
\<close>

theorem C5_counterexample:
  "spec_find_matching_track ''music/foo.mp3''
     [\<lparr>meta_number = Some 1, meta_title = Some [], meta_duration = None\<rparr>,
      \<lparr>meta_number = Some 2, meta_title = Some ''Foo'', meta_duration = None\<rparr>]
   = Some \<lparr>meta_number = Some 1, meta_title = Some [], meta_duration = None\<rparr>
   \<and> find_matching_track ''music/foo.mp3''
     [\<lparr>meta_number = Some 1, meta_title = Some [], meta_duration = None\<rparr>,
      \<lparr>meta_number = Some 2, meta_title = Some ''Foo'', meta_duration = None\<rparr>]
   = Some \<lparr>meta_number = Some 2, meta_title = Some ''Foo'', meta_duration = None\<rparr>
   \<and> str_in ''07'' (path_stem ''music/1999 - 07 song.mp3'')
   \<and> find_matching_track ''music/1999 - 07 song.mp3''
     [\<lparr>meta_number = Some 7, meta_title = Some ''Alpha'', meta_duration = None\<rparr>,
      \<lparr>meta_number = Some 8, meta_title = Some ''Song'', meta_duration = None\<rparr>]
   = Some \<lparr>meta_number = Some 8, meta_title = Some ''Song'', meta_duration = None\<rparr>"
  by code_simp


section \<open>Properties of the release year\<close>

lemma first_year_in_dates_find:
  "first_year_in_dates dates = find in_bounds (List.map_filter search_4_digits dates)"
  by (induction dates) (simp_all add: List.map_filter_simps split: option.splits)

lemma first_year_prefix_find:
  "first_year_prefix dates = find in_bounds (map (take 4) dates)"
  by (induction dates) simp_all

lemma first_year_in_bounds_find: "first_year_in_bounds years = find in_bounds years"
  by (induction years) simp_all

lemma max_list_Max: "max_list m xs = Max (set (m # xs))"
proof (induction xs arbitrary: m)
  case Nil
  show ?case by simp
next
  case (Cons x xs)
  have "Max (set (m # x # xs)) = Max (insert (max m x) (set xs))"
  proof (cases "xs = []")
    case True
    then show ?thesis by (simp add: max.commute)
  next
    case False
    then have "Max (insert m (insert x (set xs))) = max m (max x (Max (set xs)))" by simp
    also have "\<dots> = max (max m x) (Max (set xs))" by (simp add: max.assoc)
    also have "\<dots> = Max (insert (max m x) (set xs))" using False by simp
    finally show ?thesis by simp
  qed
  with Cons show ?case by simp
qed

lemma most_recent_year_pick: "most_recent_year matches = pick_year (Most_recent, matches)"
proof (cases "filter in_bounds matches")
  case Nil
  then show ?thesis by (simp add: most_recent_year_def)
next
  case (Cons v vs)
  have "year_value ` set (filter in_bounds matches) = set (int_of_digits v # map int_of_digits vs)"
    unfolding Cons by (auto simp add: year_value_def)
  with Cons show ?thesis
    by (simp add: most_recent_year_def max_list_Max del: set_simps)
qed

lemma extract_release_year_spec: "extract_release_year page = spec_release_year page"
  by (simp add: extract_release_year_def spec_release_year_def year_sources_def
      first_year_in_dates_find first_year_prefix_find first_year_in_bounds_find
      most_recent_year_pick first_of_3 split: option.splits)


lemma digit_nth:
  "k < 10 \<Longrightarrow> is_digit (''0123456789'' ! k) \<and> digit_value (''0123456789'' ! k) = k"
proof -
  assume "k < 10"
  then have "k \<in> {0, 1, 2, 3, 4, 5, 6, 7, 8, 9}" by auto
  then show ?thesis
    by (auto simp add: is_digit_def digit_value_def upt_rec)
qed

lemma foldl_digits_snoc:
  "foldl (\<lambda>n c. 10 * n + digit_value c) 0 (ds @ [d])
   = 10 * foldl (\<lambda>n c. 10 * n + digit_value c) 0 ds + digit_value d"
  by simp

lemma str_nat_value: "foldl (\<lambda>n c. 10 * n + digit_value c) 0 (str_nat n) = n"
proof (induction n rule: str_nat.induct)
  case (1 n)
  show ?case
  proof (cases "n < 10")
    case True
    then show ?thesis
      by (simp add: str_nat.simps [of n] digit_nth)
  next
    case False
    have "n mod 10 < 10" by simp
    with False "1.IH" show ?thesis
      by (simp add: str_nat.simps [of n] digit_nth)
  qed
qed

lemma int_of_digits_str_nat: "int_of_digits (str_nat n) = int n"
  by (simp add: int_of_digits_def str_nat_value)

lemma str_nat_digits: "list_all is_digit (str_nat n)"
proof (induction n rule: str_nat.induct)
  case (1 n)
  show ?case
  proof (cases "n < 10")
    case True
    then show ?thesis
      by (simp add: str_nat.simps [of n] digit_nth)
  next
    case False
    have "n mod 10 < 10" by simp
    with False "1.IH" show ?thesis
      by (simp add: str_nat.simps [of n] digit_nth)
  qed
qed

lemma str_nat_length_4: "1000 \<le> n \<Longrightarrow> n < 10000 \<Longrightarrow> length (str_nat n) = 4"
proof -
  assume a: "1000 \<le> n" "n < 10000"
  have 1: "\<not> n < 10" "\<not> n div 10 < 10" "\<not> n div 10 div 10 < 10" "n div 10 div 10 div 10 < 10"
    using a by auto
  show ?thesis
    using 1
    by (simp add: str_nat.simps [of n] str_nat.simps [of "n div 10"]
        str_nat.simps [of "n div 10 div 10"] str_nat.simps [of "n div 10 div 10 div 10"])
qed

lemma in_bounds_str_nat:
  "1950 \<le> m \<Longrightarrow> m \<le> 2030 \<Longrightarrow> in_bounds (str_nat (nat m))"
proof -
  assume a: "1950 \<le> m" "m \<le> 2030"
  then have l: "length (str_nat (nat m)) = 4" by (intro str_nat_length_4) auto
  then have "str_nat (nat m) \<noteq> []" by auto
  with a l show ?thesis
    by (simp add: in_bounds_def str_nat_digits int_of_digits_str_nat)
qed

lemma pick_year_in_bounds: "pick_year source = Some year \<Longrightarrow> in_bounds year"
proof (cases source)
  case (Pair c candidates)
  assume p: "pick_year source = Some year"
  show ?thesis
  proof (cases c)
    case First_in_bounds
    with p Pair show ?thesis by (auto simp add: find_Some_iff)
  next
    case Most_recent
    let ?vs = "year_value ` set (filter in_bounds candidates)"
    from p Pair Most_recent have ne: "filter in_bounds candidates \<noteq> []"
      and y: "year = str_nat (nat (Max ?vs))"
      by (auto split: if_splits)
    from ne have "?vs \<noteq> {}" by (auto simp add: filter_empty_conv)
    moreover have "finite ?vs" by simp
    ultimately have "Max ?vs \<in> ?vs" by (rule Max_in [rotated])
    then obtain v where "in_bounds v" "Max ?vs = year_value v" by auto
    then have "1950 \<le> Max ?vs" "Max ?vs \<le> 2030"
      by (simp_all add: in_bounds_def year_value_def)
    then show ?thesis unfolding y by (rule in_bounds_str_nat)
  qed
qed

lemma pick_year_None: "pick_year source = None \<Longrightarrow> no_year_in_bounds source"
proof (cases source)
  case (Pair c candidates)
  assume "pick_year source = None"
  with Pair show ?thesis
    by (cases c)
       (auto simp add: no_year_in_bounds_def find_None_iff list_all_iff filter_empty_conv
         split: if_splits)
qed

lemma first_of_pick_None:
  "first_of (map pick_year sources) = None \<Longrightarrow> list_all no_year_in_bounds sources"
proof (induction sources)
  case Nil
  show ?case by simp
next
  case (Cons s sources)
  then show ?case
    by (cases "pick_year s") (simp_all add: pick_year_None)
qed

lemma first_of_pick_Some:
  "first_of (map pick_year sources) = Some year \<Longrightarrow>
   \<exists>before source after. sources = before @ source # after
      \<and> list_all no_year_in_bounds before \<and> pick_year source = Some year"
proof (induction sources)
  case Nil
  then show ?case by simp
next
  case (Cons s sources)
  show ?case
  proof (cases "pick_year s")
    case None
    with Cons obtain before source after where
      "sources = before @ source # after" "list_all no_year_in_bounds before"
      "pick_year source = Some year"
      by auto
    with None have "s # sources = (s # before) @ source # after"
      "list_all no_year_in_bounds (s # before)" "pick_year source = Some year"
      by (simp_all add: pick_year_None)
    then show ?thesis by blast
  next
    case (Some y)
    with Cons.prems have "s # sources = [] @ s # sources"
      "list_all no_year_in_bounds []" "pick_year s = Some year"
      by simp_all
    then show ?thesis by blast
  qed
qed

text \<open>
  C4. The extractor returns what the cascade of the specification returns: the choice
  of the first source, in priority order, that has a candidate within 1950..2030.
  A year that is returned is within these bounds and is the choice of a source all of
  whose predecessors have only candidates out of bounds; when nothing is returned, no
  source has a candidate within the bounds.
\<close>

theorem C4_year_cascade:
  "extract_release_year page = spec_release_year page
   \<and> (case extract_release_year page of
         Some year \<Rightarrow>
           in_bounds year
           \<and> (\<exists>before source after.
                 year_sources page = before @ source # after
                 \<and> list_all no_year_in_bounds before
                 \<and> pick_year source = Some year)
       | None \<Rightarrow> list_all no_year_in_bounds (year_sources page))"
proof (cases "extract_release_year page")
  case None
  then have "first_of (map pick_year (year_sources page)) = None"
    by (simp add: extract_release_year_spec spec_release_year_def)
  then have "list_all no_year_in_bounds (year_sources page)" by (rule first_of_pick_None)
  with None show ?thesis by (simp add: extract_release_year_spec)
next
  case (Some year)
  then have f: "first_of (map pick_year (year_sources page)) = Some year"
    by (simp add: extract_release_year_spec spec_release_year_def)
  from first_of_pick_Some [OF f] obtain before source after where
    d: "year_sources page = before @ source # after" "list_all no_year_in_bounds before"
       "pick_year source = Some year"
    by blast
  from d(3) have inb: "in_bounds year" by (rule pick_year_in_bounds)
  from d have ex: "\<exists>before source after.
      year_sources page = before @ source # after
      \<and> list_all no_year_in_bounds before \<and> pick_year source = Some year"
    by blast
  have e: "Some year = spec_release_year page"
    using Some by (simp add: extract_release_year_spec)
  show ?thesis
    unfolding Some option.case by (rule conjI [OF e conjI [OF inb ex]])
qed

text \<open>
  On the page with conflicting signals the credits' 1900 is discarded and the meta tag
  wins over the data blob and the text; when the first four digits of the meta tag and
  of the data blob are out of bounds as well, the most recent year of the text is taken.
\<close>

lemma example_signals_year:
  "extract_release_year example_signals = Some ''2019''"
  "extract_release_year
     (example_signals\<lparr>meta_release_dates := [''0000-2024''], pagedata_dates := [''3000'']\<rparr>)
   = Some ''2023''"
  by code_simp+


end
